theory Spec2Isabelle
  imports Main
begin

section \<open>Nested type concretization (ConcreteTypeWitness.cpp)\<close>

text \<open>
  A shallow embedding of \<^verbatim>\<open>lib/AST/RequirementMachine/ConcreteTypeWitness.cpp\<close>: the
  six member functions of \<^verbatim>\<open>PropertyMap\<close> that introduce concrete type requirements on
  nested types. The rewrite system, the AST and the rewrite context are not part of that
  file. What the file reads from them (conformance lookup, associated types, relative
  terms, substitution simplification, requirement lowering) is taken as a parameter,
  the record \<open>Env\<close>; what it writes to them (rules, relations, known protocols, the
  table of concrete conformances) is an explicit state, the record \<open>State\<close>. Every
  assertion and every unchecked dereference of the source is an \<open>Error\<close> branch.
\<close>

subsection \<open>Types, symbols and terms\<close>

type_synonym ProtocolDecl = string
type_synonym Identifier = string

text \<open>
  Canonical types, as far as the file looks into them: generic parameters
  \<open>\<tau>_d_i\<close>, member types of a base type, nominal types with generic arguments and
  the error type that wraps an original type.
\<close>

datatype CanType =
    GenericTypeParamType nat nat
  | DependentMemberType CanType ProtocolDecl Identifier
  | NominalType string "CanType list"
  | ErrorType CanType

text \<open>
  Modelled from the spec: \<^verbatim>\<open>TypeBase::isTypeParameter\<close> (not in src). An abstract witness
  is a reference to a generic parameter, possibly followed by member type projections.
\<close>

fun isTypeParameter :: "CanType \<Rightarrow> bool" where
  "isTypeParameter (GenericTypeParamType d i) = True"
| "isTypeParameter (DependentMemberType base p n) = isTypeParameter base"
| "isTypeParameter (NominalType n args) = False"
| "isTypeParameter (ErrorType orig) = False"

text \<open>
  Modelled from the spec: \<^verbatim>\<open>TypeBase::hasTypeParameter\<close> (not in src). A witness is fully
  concrete when no generic parameter occurs anywhere in it; the error placeholder holds
  none, whatever its original type.
\<close>

fun hasTypeParameter :: "CanType \<Rightarrow> bool" where
  "hasTypeParameter (GenericTypeParamType d i) = True"
| "hasTypeParameter (DependentMemberType base p n) = hasTypeParameter base"
| "hasTypeParameter (NominalType n args) = list_ex hasTypeParameter args"
| "hasTypeParameter (ErrorType orig) = False"

text \<open>
  Symbols are uniqued by the rewrite context, so equality of symbols is equality of
  their contents. The constructors carry the names of the factory functions of
  \<^verbatim>\<open>Symbol\<close>.
\<close>

datatype Symbol =
    forGenericParam nat nat
  | forName Identifier
  | forProtocol ProtocolDecl
  | forAssociatedType ProtocolDecl Identifier
  | forLayout string
  | forSuperclass CanType "Symbol list list"
  | forConcreteType CanType "Symbol list list"
  | forConcreteConformance CanType "Symbol list list" ProtocolDecl

type_synonym Term = "Symbol list"

text \<open>
  \<^verbatim>\<open>Symbol::getConcreteType\<close> and \<^verbatim>\<open>Symbol::getSubstitutions\<close> are defined on the three
  kinds of symbol that carry a type; on any other kind the source asserts, here \<open>None\<close>.
\<close>

fun getConcreteType :: "Symbol \<Rightarrow> CanType option" where
  "getConcreteType (forSuperclass t subs) = Some t"
| "getConcreteType (forConcreteType t subs) = Some t"
| "getConcreteType (forConcreteConformance t subs p) = Some t"
| "getConcreteType s = None"

fun getSubstitutions :: "Symbol \<Rightarrow> Term list option" where
  "getSubstitutions (forSuperclass t subs) = Some subs"
| "getSubstitutions (forConcreteType t subs) = Some subs"
| "getSubstitutions (forConcreteConformance t subs p) = Some subs"
| "getSubstitutions s = None"

text \<open>
  Modelled from the spec: \<^verbatim>\<open>Symbol::isProperty\<close> (not in src). A rule encodes a property
  when the symbol it attaches is a conformance, layout, superclass, concrete type or
  concrete conformance symbol.
\<close>

fun isProperty :: "Symbol \<Rightarrow> bool" where
  "isProperty (forProtocol p) = True"
| "isProperty (forLayout l) = True"
| "isProperty (forSuperclass t subs) = True"
| "isProperty (forConcreteType t subs) = True"
| "isProperty (forConcreteConformance t subs p) = True"
| "isProperty s = False"

text \<open>
  Modelled from the spec: \<^verbatim>\<open>Symbol::prependPrefixToConcreteSubstitutions\<close> (not in src).
  Every substitution term of the symbol is re-prefixed by the given path segment.
\<close>

fun prependPrefixToConcreteSubstitutions :: "Term \<Rightarrow> Symbol \<Rightarrow> Symbol" where
  "prependPrefixToConcreteSubstitutions pre (forSuperclass t subs) =
     forSuperclass t (map (\<lambda>s. pre @ s) subs)"
| "prependPrefixToConcreteSubstitutions pre (forConcreteType t subs) =
     forConcreteType t (map (\<lambda>s. pre @ s) subs)"
| "prependPrefixToConcreteSubstitutions pre (forConcreteConformance t subs p) =
     forConcreteConformance t (map (\<lambda>s. pre @ s) subs) p"
| "prependPrefixToConcreteSubstitutions pre s = s"

text \<open>
  Modelled from the spec: \<^verbatim>\<open>Term::getRootProtocol\<close> (not in src). A key is nested inside
  an interface's own requirement signature when it starts with a symbol of that
  interface; a key rooted at a generic parameter has no root protocol.
\<close>

fun getRootProtocol :: "Term \<Rightarrow> ProtocolDecl option" where
  "getRootProtocol (forProtocol p # rest) = Some p"
| "getRootProtocol (forAssociatedType p n # rest) = Some p"
| "getRootProtocol t = None"

subsection \<open>Rewrite paths, relations and rules\<close>

datatype RewriteStep =
    forRewriteRule nat nat nat bool
  | forRelation nat nat bool
  | forPrefixSubstitutions nat nat bool
  | forDecompose nat bool

type_synonym RewritePath = "RewriteStep list"

text \<open>
  Modelled from the spec: \<^verbatim>\<open>RewritePath::invert\<close> (not in src). The steps are taken in
  the opposite order, each in the opposite direction.
\<close>

fun invertStep :: "RewriteStep \<Rightarrow> RewriteStep" where
  "invertStep (forRewriteRule startOffset endOffset ruleID isInverse) =
     forRewriteRule startOffset endOffset ruleID (\<not> isInverse)"
| "invertStep (forRelation startOffset relationID isInverse) =
     forRelation startOffset relationID (\<not> isInverse)"
| "invertStep (forPrefixSubstitutions len endOffset isInverse) =
     forPrefixSubstitutions len endOffset (\<not> isInverse)"
| "invertStep (forDecompose n isInverse) = forDecompose n (\<not> isInverse)"

definition invert :: "RewritePath \<Rightarrow> RewritePath" where
  "invert path = rev (map invertStep path)"

text \<open>
  The four ways the file records a relation: a pair of terms, and the three relations
  among a concrete conformance symbol, an associated type symbol and a concrete type
  symbol.
\<close>

datatype Relation =
    TermRelation Term Term
  | ConcreteConformanceRelation Symbol Symbol Symbol
  | ConcreteTypeWitnessRelation Symbol Symbol Symbol
  | SameTypeWitnessRelation Symbol Symbol

record Rule =
  LHS :: Term
  RHS :: Term
  Derivation :: "RewritePath option"
  Permanent :: bool
  Explicit :: bool
  Conflicting :: bool

text \<open>
  Modelled from the spec: \<^verbatim>\<open>Rule::isPropertyRule\<close> (not in src). The symbol a rule
  attaches, when its left side is its right side followed by one property symbol.
\<close>

definition isPropertyRule :: "Rule \<Rightarrow> Symbol option" where
  "isPropertyRule r =
     (if LHS r \<noteq> [] \<and> isProperty (last (LHS r)) \<and> butlast (LHS r) = RHS r
      then Some (last (LHS r)) else None)"

subsection \<open>Conformances, requirements and property bags\<close>

datatype RequirementKind = Conformance | Superclass | SameType | Layout

datatype Requirement =
    ConformanceRequirement CanType ProtocolDecl
  | SuperclassRequirement CanType CanType
  | SameTypeRequirement CanType CanType
  | LayoutRequirement CanType string

fun getKind :: "Requirement \<Rightarrow> RequirementKind" where
  "getKind (ConformanceRequirement t p) = Conformance"
| "getKind (SuperclassRequirement t c) = Superclass"
| "getKind (SameTypeRequirement t u) = SameType"
| "getKind (LayoutRequirement t l) = Layout"

record ProtocolConformance =
  ConformingType :: CanType
  ConformedProtocol :: ProtocolDecl
  TypeWitnesses :: "(Identifier \<times> CanType) list"
  ConditionalRequirements :: "Requirement list"

definition getTypeWitness :: "ProtocolConformance \<Rightarrow> Identifier \<Rightarrow> CanType option" where
  "getTypeWitness concrete assocType = map_of (TypeWitnesses concrete) assocType"

datatype ProtocolConformanceRef =
    Invalid
  | Abstract ProtocolDecl
  | Concrete ProtocolConformance

text \<open>
  Modelled from the spec: \<^verbatim>\<open>PropertyBag\<close> (declared in PropertyMap.h, not in src). A
  concrete type or superclass property is the symbol (schema and substitutions)
  together with the id of the rule it comes from; the two lists of resolved
  conformances are the vectors the concretizer appends to.
\<close>

record PropertyBag =
  Key :: Term
  ConformsTo :: "ProtocolDecl list"
  ConformsToRules :: "nat list"
  ConcreteTypeProperty :: "(Symbol \<times> nat) option"
  SuperclassProperty :: "(Symbol \<times> nat) option"
  BagConcreteConformances :: "ProtocolConformance list"
  BagSuperclassConformances :: "ProtocolConformance list"

definition isConcreteType :: "PropertyBag \<Rightarrow> bool" where
  "isConcreteType props = (ConcreteTypeProperty props \<noteq> None)"

definition hasSuperclassBound :: "PropertyBag \<Rightarrow> bool" where
  "hasSuperclassBound props = (SuperclassProperty props \<noteq> None)"

definition bagConcreteType :: "PropertyBag \<Rightarrow> CanType option" where
  "bagConcreteType props =
     (case ConcreteTypeProperty props of None \<Rightarrow> None | Some (s, r) \<Rightarrow> getConcreteType s)"

subsection \<open>The rewrite system and the property map, as a state\<close>

text \<open>
  \<open>Rules\<close> and \<open>Relations\<close> are the vectors of the rewrite system, indexed by rule id
  and relation id; \<open>Protos\<close> is its protocol map; \<open>ConcreteConformances\<close> is the member
  of \<^verbatim>\<open>PropertyMap\<close> of that name, the table from a pair of rule ids to the conformance
  found for it. The table belongs to the property map, not to one property bag.
\<close>

record State =
  Rules :: "Rule list"
  Relations :: "Relation list"
  Protos :: "ProtocolDecl list"
  ConcreteConformances :: "((nat \<times> nat) \<times> ProtocolConformance) list"

text \<open>
  Modelled from the spec: \<^verbatim>\<open>TypeDifference\<close> (not in src). The simplification of
  substitutions gives the simplified symbol: the symbol it was given, with the type and
  the substitution terms in canonical form. The left side of a difference is the symbol
  given; the right side is the symbol of the same kind that carries the canonical type
  and substitution terms, a concrete type symbol \<open>[concrete: C.X']\<close> where the file
  asks for one.
\<close>

record TypeDifference =
  DifferenceLHS :: Symbol
  CanonicalType :: CanType
  CanonicalSubstitutions :: "Term list"

definition DifferenceRHS :: "TypeDifference \<Rightarrow> Symbol" where
  "DifferenceRHS difference =
     (case DifferenceLHS difference of
        forSuperclass t subs \<Rightarrow>
          forSuperclass (CanonicalType difference) (CanonicalSubstitutions difference)
      | forConcreteConformance t subs p \<Rightarrow>
          forConcreteConformance (CanonicalType difference)
            (CanonicalSubstitutions difference) p
      | _ \<Rightarrow>
          forConcreteType (CanonicalType difference) (CanonicalSubstitutions difference))"

record RuleBuilder =
  ReferencedProtocols :: "ProtocolDecl list"
  PermanentRules :: "(Term \<times> Term) list"
  RequirementRules :: "(Term \<times> Term) list"

text \<open>
  The collaborators the file calls and does not define. \<open>simplifySubstitutions\<close> reads
  the rules present at the call; \<open>ruleBuilder\<close> stands for the three calls on a
  \<^verbatim>\<open>RuleBuilder\<close> made over the protocol map (\<^verbatim>\<open>addProtocol\<close>,
  \<^verbatim>\<open>collectRulesFromReferencedProtocols\<close>, and reading its two rule lists);
  \<open>desugarRequirement\<close> gives the requirements it appends to its result;
  \<open>getRuleForRequirement\<close> is called with the requirement, canonical as all types of the
  model are, and the substitution terms.
\<close>

record Env =
  lookupConformance :: "CanType \<Rightarrow> ProtocolDecl \<Rightarrow> ProtocolConformanceRef"
  getAssociatedTypeMembers :: "ProtocolDecl \<Rightarrow> Identifier list"
  getRelativeTermForType :: "CanType \<Rightarrow> Term list \<Rightarrow> Term"
  getRelativeSubstitutionSchemaFromType :: "CanType \<Rightarrow> Term list \<Rightarrow> CanType \<times> Term list"
  lookUpProperties :: "Term \<Rightarrow> PropertyBag option"
  simplifySubstitutions :: "Rule list \<Rightarrow> Term \<Rightarrow> Symbol \<Rightarrow> TypeDifference option \<times> RewritePath"
  desugarRequirement :: "Requirement \<Rightarrow> Requirement list"
  ruleBuilder :: "ProtocolDecl list \<Rightarrow> ProtocolDecl \<Rightarrow> RuleBuilder"
  getRuleForRequirement :: "Requirement \<Rightarrow> Term list \<Rightarrow> Term \<times> Term"

datatype Error =
    AssertRequirementKind
  | AssertConformsToSize
  | AssertAbstractConformance
  | AssertInserted
  | AssertPathEmpty
  | AssertDifferenceLHS
  | RuleOutOfRange
  | NotAPropertyRule
  | NoConcreteType
  | SubjectTooShort

definition getRule :: "State \<Rightarrow> nat \<Rightarrow> Error + Rule" where
  "getRule st ruleID =
     (if ruleID < length (Rules st) then Inr (Rules st ! ruleID) else Inl RuleOutOfRange)"

definition markConflicting :: "nat \<Rightarrow> State \<Rightarrow> State" where
  "markConflicting ruleID st =
     st\<lparr>Rules := (Rules st)[ruleID := (Rules st ! ruleID)\<lparr>Conflicting := True\<rparr>]\<rparr>"

text \<open>
  Modelled from the spec: \<^verbatim>\<open>RewriteSystem::addRule\<close>, \<^verbatim>\<open>addPermanentRule\<close> and
  \<^verbatim>\<open>addExplicitRule\<close> (not in src). Rules are append-only: \<open>Rules\<close> records every
  rule as it is handed over, behind the existing ones, with the derivation it came with.
  What the store makes of the pair, by reducing its two sides with the rules it holds and
  by orienting it, is \<open>reduceRule\<close> and \<open>orientRule\<close> below.
\<close>

definition addRule :: "Term \<Rightarrow> Term \<Rightarrow> RewritePath option \<Rightarrow> State \<Rightarrow> State" where
  "addRule lhs rhs path st =
     st\<lparr>Rules := Rules st @
       [\<lparr>LHS = lhs, RHS = rhs, Derivation = path, Permanent = False, Explicit = False,
         Conflicting = False\<rparr>]\<rparr>"

definition addPermanentRule :: "Term \<Rightarrow> Term \<Rightarrow> State \<Rightarrow> State" where
  "addPermanentRule lhs rhs st =
     st\<lparr>Rules := Rules st @
       [\<lparr>LHS = lhs, RHS = rhs, Derivation = None, Permanent = True, Explicit = False,
         Conflicting = False\<rparr>]\<rparr>"

definition addExplicitRule :: "Term \<Rightarrow> Term \<Rightarrow> State \<Rightarrow> State" where
  "addExplicitRule lhs rhs st =
     st\<lparr>Rules := Rules st @
       [\<lparr>LHS = lhs, RHS = rhs, Derivation = None, Permanent = False, Explicit = True,
         Conflicting = False\<rparr>]\<rparr>"

text \<open>
  Modelled from the spec: the reduction of a term under the rules of the store (the
  canonicalization that \<^verbatim>\<open>RewriteSystem::addRule\<close> is responsible for, not in src). A
  rule rewrites the first place where its left side stands in the term to its right
  side. Only rules whose right side is shorter than the left one are applied, as every
  property rule is, so that each step shortens the term and the reduction ends within as
  many steps as the term has symbols; a rule the store would have to turn round first
  takes no part.
\<close>

fun rewriteFirst :: "Term \<Rightarrow> Term \<Rightarrow> Term \<Rightarrow> Term option" where
  "rewriteFirst lhs rhs [] = None"
| "rewriteFirst lhs rhs (x # xs) =
     (if lhs \<noteq> [] \<and> take (length lhs) (x # xs) = lhs
      then Some (rhs @ drop (length lhs) (x # xs))
      else map_option (\<lambda>t. x # t) (rewriteFirst lhs rhs xs))"

definition applyRule :: "Rule \<Rightarrow> Term \<Rightarrow> Term option" where
  "applyRule r t =
     (if length (RHS r) < length (LHS r) then rewriteFirst (LHS r) (RHS r) t else None)"

fun reduceStep :: "Rule list \<Rightarrow> Term \<Rightarrow> Term option" where
  "reduceStep [] t = None"
| "reduceStep (r # rules) t =
     (case applyRule r t of Some t' \<Rightarrow> Some t' | None \<Rightarrow> reduceStep rules t)"

fun reduceWith :: "nat \<Rightarrow> Rule list \<Rightarrow> Term \<Rightarrow> Term" where
  "reduceWith 0 rules t = t"
| "reduceWith (Suc n) rules t =
     (case reduceStep rules t of None \<Rightarrow> t | Some t' \<Rightarrow> reduceWith n rules t')"

definition reduceTerm :: "Rule list \<Rightarrow> Term \<Rightarrow> Term" where
  "reduceTerm rules t = reduceWith (length t) rules t"



definition isKnownProtocol :: "State \<Rightarrow> ProtocolDecl \<Rightarrow> bool" where
  "isKnownProtocol st proto = (proto \<in> set (Protos st))"

text \<open>
  Modelled from the spec: \<^verbatim>\<open>RewriteSystem::recordRelation\<close> and its three variants (not
  in src). The registry is memoized: a relation already recorded keeps its id, a new one
  gets the next id.
\<close>

fun indexOf :: "'a \<Rightarrow> 'a list \<Rightarrow> nat option" where
  "indexOf x [] = None"
| "indexOf x (y # ys) = (if x = y then Some 0 else map_option Suc (indexOf x ys))"

definition recordRelation :: "Relation \<Rightarrow> State \<Rightarrow> nat \<times> State" where
  "recordRelation r st =
     (case indexOf r (Relations st) of
        Some relationID \<Rightarrow> (relationID, st)
      | None \<Rightarrow> (length (Relations st), st\<lparr>Relations := Relations st @ [r]\<rparr>))"

text \<open>
  \<^verbatim>\<open>llvm::DenseMap::insert\<close>: an absent key is added and the flag is true; a present key
  leaves the table as it is and the flag is false.
\<close>

definition insertConformance ::
  "(nat \<times> nat) \<Rightarrow> ProtocolConformance \<Rightarrow> ((nat \<times> nat) \<times> ProtocolConformance) list
     \<Rightarrow> ((nat \<times> nat) \<times> ProtocolConformance) list \<times> bool" where
  "insertConformance pair concrete table =
     (case map_of table pair of
        None \<Rightarrow> (table @ [(pair, concrete)], True)
      | Some found \<Rightarrow> (table, False))"

subsection \<open>recordConcreteConformanceRule\<close>

definition recordConcreteConformanceRule ::
  "nat \<Rightarrow> nat \<Rightarrow> RequirementKind \<Rightarrow> Symbol \<Rightarrow> State \<Rightarrow> Error + State" where
  "recordConcreteConformanceRule concreteRuleID conformanceRuleID requirementKind
       concreteConformanceSymbol st =
     (case getRule st concreteRuleID of
        Inl e \<Rightarrow> Inl e
      | Inr concreteRule \<Rightarrow>
     (case getRule st conformanceRuleID of
        Inl e \<Rightarrow> Inl e
      | Inr conformanceRule \<Rightarrow>
     (let rhs = (if length (RHS concreteRule) > length (RHS conformanceRule)
                 then RHS concreteRule else RHS conformanceRule);
          path0 = [forRewriteRule (length rhs - length (RHS conformanceRule)) 0
                     conformanceRuleID True,
                   forRewriteRule (length rhs - length (RHS concreteRule)) 1
                     concreteRuleID True];
          prefixLength = length rhs - length (RHS concreteRule)
      in
     (case isPropertyRule concreteRule of
        None \<Rightarrow> Inl NotAPropertyRule
      | Some concreteSymbol0 \<Rightarrow>
     (case (if prefixLength > 0
            then (case getSubstitutions concreteConformanceSymbol of
                    None \<Rightarrow> Inl NoConcreteType
                  | Some conformanceSubstitutions \<Rightarrow> Inr (conformanceSubstitutions \<noteq> []))
            else Inr False) of
        Inl e \<Rightarrow> Inl e
      | Inr prefixed \<Rightarrow>
     (let path1 = (if prefixed
                   then path0 @ [forPrefixSubstitutions prefixLength 1 False] else path0);
          concreteSymbol = (if prefixed
                   then prependPrefixToConcreteSubstitutions (take prefixLength rhs)
                          concreteSymbol0
                   else concreteSymbol0)
      in
     (case isPropertyRule conformanceRule of
        None \<Rightarrow> Inl NotAPropertyRule
      | Some protocolSymbol \<Rightarrow>
     (case recordRelation
             (ConcreteConformanceRelation concreteSymbol protocolSymbol
                concreteConformanceSymbol) st of
        (relationID, st1) \<Rightarrow>
          (let path2 = path1 @ [forRelation (length rhs) relationID False];
               lhs = rhs @ [concreteConformanceSymbol]
           in Inr (addRule lhs rhs (Some (invert path2)) st1))))))))))"

subsection \<open>computeConstraintTermForTypeWitness\<close>

text \<open>
  The loop over the prefixes of the key: \<open>end\<close> starts behind the last symbol and moves
  down until it meets \<open>begin\<close>, so the prefixes of length \<open>n\<close>, \<open>n - 1\<close>, ..., \<open>1\<close>
  are looked up in that order. The first property bag that has a concrete type equal to
  the type witness ends the loop.
\<close>

fun scanPrefixes :: "Env \<Rightarrow> CanType \<Rightarrow> Term \<Rightarrow> nat \<Rightarrow> PropertyBag option" where
  "scanPrefixes env typeWitness key 0 = None"
| "scanPrefixes env typeWitness key (Suc n) =
     (case lookUpProperties env (take (Suc n) key) of
        None \<Rightarrow> scanPrefixes env typeWitness key n
      | Some props \<Rightarrow>
          (if isConcreteType props \<and> bagConcreteType props = Some typeWitness
           then Some props
           else scanPrefixes env typeWitness key n))"

text \<open>
  Lines 375 to 385: the substitution terms of the type witness symbol are simplified; when
  that gives a type difference, its right side replaces the symbol and the path of the
  simplification is inverted.
\<close>

definition simplifyTypeWitnessSymbol ::
  "Env \<Rightarrow> State \<Rightarrow> Term \<Rightarrow> Symbol \<Rightarrow> Error + (Symbol \<times> RewritePath)" where
  "simplifyTypeWitnessSymbol env st key typeWitnessSymbol =
     (case simplifySubstitutions env (Rules st) key typeWitnessSymbol of
        (differenceID, substPath) \<Rightarrow>
          (case differenceID of
             None \<Rightarrow> Inr (typeWitnessSymbol, substPath)
           | Some difference \<Rightarrow>
               (if DifferenceLHS difference \<noteq> typeWitnessSymbol
                then Inl AssertDifferenceLHS
                else Inr (DifferenceRHS difference, invert substPath))))"

text \<open>
  Lines 363 to 438: the type witness is concrete and no prefix of the key has its type.
  The test of line 389 reads the type of the simplified symbol only for a same-type
  requirement, and its substitutions only when the type is that of the parent.
\<close>

definition concreteTypeWitnessTerm ::
  "Env \<Rightarrow> Term \<Rightarrow> RequirementKind \<Rightarrow> CanType \<Rightarrow> Symbol \<Rightarrow> Term \<Rightarrow> Term list
     \<Rightarrow> RewritePath \<Rightarrow> State \<Rightarrow> Error + (Term \<times> RewritePath \<times> State)" where
  "concreteTypeWitnessTerm env key requirementKind concreteType typeWitnessSymbol
       subjectType substitutions path st =
     (if length subjectType < 2 then Inl SubjectTooShort
      else
        (let concreteConformanceSymbol = subjectType ! (length subjectType - 2);
             associatedTypeSymbol = subjectType ! (length subjectType - 1)
         in
         (case recordRelation
                 (ConcreteTypeWitnessRelation concreteConformanceSymbol
                    associatedTypeSymbol typeWitnessSymbol) st of
            (concreteRelationID, st1) \<Rightarrow>
              (case simplifyTypeWitnessSymbol env st1 key typeWitnessSymbol of
                 Inl e \<Rightarrow> Inl e
               | Inr (simplifiedSymbol, substPath) \<Rightarrow>
                   (case (if requirementKind = SameType
                          then (case getConcreteType simplifiedSymbol of
                                  None \<Rightarrow> Inl NoConcreteType
                                | Some simplifiedType \<Rightarrow>
                                    Inr (simplifiedType = concreteType \<and>
                                         getSubstitutions simplifiedSymbol =
                                           Some substitutions))
                          else Inr False) of
                      Inl e \<Rightarrow> Inl e
                    | Inr sameAsParent \<Rightarrow>
                        (if sameAsParent
                         then
                           (case recordRelation
                                   (SameTypeWitnessRelation concreteConformanceSymbol
                                      associatedTypeSymbol) st1 of
                              (sameRelationID, st2) \<Rightarrow>
                                Inr (key @ [concreteConformanceSymbol],
                                     path @ [forRelation (length key) sameRelationID True]
                                       @ substPath
                                       @ [forRelation (length key) concreteRelationID False],
                                     st2))
                         else
                           Inr (subjectType @ [simplifiedSymbol],
                                path @ substPath
                                  @ [forRelation (length key) concreteRelationID False],
                                st1)))))))"

text \<open>
  The result is the constraint term, the path with the steps added to it, and the state
  with the relations recorded.
\<close>

definition computeConstraintTermForTypeWitness ::
  "Env \<Rightarrow> Term \<Rightarrow> RequirementKind \<Rightarrow> CanType \<Rightarrow> CanType \<Rightarrow> Term \<Rightarrow> Term list
     \<Rightarrow> RewritePath \<Rightarrow> State \<Rightarrow> Error + (Term \<times> RewritePath \<times> State)" where
  "computeConstraintTermForTypeWitness env key requirementKind concreteType typeWitness
       subjectType substitutions path st =
     (if isTypeParameter typeWitness then
        (let result = getRelativeTermForType env typeWitness substitutions in
         (case recordRelation (TermRelation result subjectType) st of
            (relationID, st1) \<Rightarrow>
              Inr (result, path @ [forRelation 0 relationID False], st1)))
      else
        (case getRelativeSubstitutionSchemaFromType env typeWitness substitutions of
           (typeWitnessSchema, result) \<Rightarrow>
             (let typeWitnessSymbol = forConcreteType typeWitnessSchema result in
              (case (if \<not> hasTypeParameter typeWitness
                     then scanPrefixes env typeWitness key (length key) else None) of
                 Some props \<Rightarrow>
                   (let result = Key props @ [typeWitnessSymbol] in
                    (case recordRelation (TermRelation result subjectType) st of
                       (relationID, st1) \<Rightarrow>
                         Inr (result, path @ [forRelation 0 relationID False], st1)))
               | None \<Rightarrow>
                   concreteTypeWitnessTerm env key requirementKind concreteType
                     typeWitnessSymbol subjectType substitutions path st))))"

subsection \<open>concretizeTypeWitnessInConformance\<close>

text \<open>
  The types of the model are canonical, so \<^verbatim>\<open>getCanonicalType\<close> is the identity. The
  three reads of the concrete conformance symbol are one pattern match.
\<close>

definition concretizeTypeWitnessInConformance ::
  "Env \<Rightarrow> Term \<Rightarrow> RequirementKind \<Rightarrow> Symbol \<Rightarrow> ProtocolConformance \<Rightarrow> Identifier
     \<Rightarrow> State \<Rightarrow> Error + State" where
  "concretizeTypeWitnessInConformance env key requirementKind concreteConformanceSymbol
       concrete assocType st =
     (case concreteConformanceSymbol of
        forConcreteConformance concreteType substitutions proto \<Rightarrow>
          (let typeWitness = (case getTypeWitness concrete assocType of
                                None \<Rightarrow> ErrorType concreteType
                              | Some t \<Rightarrow> t);
               subjectType = key @ [concreteConformanceSymbol]
                                 @ [forAssociatedType proto assocType]
           in
           (case computeConstraintTermForTypeWitness env key requirementKind concreteType
                   typeWitness subjectType substitutions [] st of
              Inl e \<Rightarrow> Inl e
            | Inr (constraintType, path, st1) \<Rightarrow>
                (if path = [] then Inl AssertPathEmpty
                 else Inr (addRule constraintType subjectType (Some path) st1))))
      | _ \<Rightarrow> Inl NoConcreteType)"

text \<open>The loop over the associated types of the protocol.\<close>

fun concretizeTypeWitnesses ::
  "Env \<Rightarrow> Term \<Rightarrow> RequirementKind \<Rightarrow> Symbol \<Rightarrow> ProtocolConformance \<Rightarrow> Identifier list
     \<Rightarrow> State \<Rightarrow> Error + State" where
  "concretizeTypeWitnesses env key requirementKind concreteConformanceSymbol concrete
       [] st = Inr st"
| "concretizeTypeWitnesses env key requirementKind concreteConformanceSymbol concrete
       (assocType # rest) st =
     (case concretizeTypeWitnessInConformance env key requirementKind
             concreteConformanceSymbol concrete assocType st of
        Inl e \<Rightarrow> Inl e
      | Inr st1 \<Rightarrow>
          concretizeTypeWitnesses env key requirementKind concreteConformanceSymbol
            concrete rest st1)"

subsection \<open>inferConditionalRequirements\<close>

text \<open>One turn of the loop over the desugared requirements.\<close>

definition registerProtocol :: "Env \<Rightarrow> ProtocolDecl \<Rightarrow> State \<Rightarrow> State" where
  "registerProtocol env proto st =
     (let builder = ruleBuilder env (Protos st) proto;
          st1 = st\<lparr>Protos := ReferencedProtocols builder\<rparr>;
          st2 = foldl (\<lambda>s rule. addPermanentRule (fst rule) (snd rule) s) st1
                  (PermanentRules builder)
      in foldl (\<lambda>s rule. addExplicitRule (fst rule) (snd rule) s) st2
           (RequirementRules builder))"

definition inferConditionalRequirement ::
  "Env \<Rightarrow> Term list \<Rightarrow> State \<Rightarrow> Requirement \<Rightarrow> State" where
  "inferConditionalRequirement env substitutions st req =
     (let st1 = (case req of
                   ConformanceRequirement t proto \<Rightarrow>
                     (if \<not> isKnownProtocol st proto then registerProtocol env proto st
                      else st)
                 | _ \<Rightarrow> st);
          pair = getRuleForRequirement env req substitutions
      in addRule (fst pair) (snd pair) None st1)"

definition inferConditionalRequirements ::
  "Env \<Rightarrow> ProtocolConformance \<Rightarrow> Term list \<Rightarrow> State \<Rightarrow> State" where
  "inferConditionalRequirements env concrete substitutions st =
     (let conditionalRequirements = ConditionalRequirements concrete in
      if conditionalRequirements = [] then st
      else
        (let desugaredRequirements =
               concat (map (desugarRequirement env) conditionalRequirements)
         in foldl (inferConditionalRequirement env substitutions) st
              desugaredRequirements))"

subsection \<open>concretizeNestedTypesFromConcreteParent\<close>

text \<open>
  The branch taken when the conformance lookup is invalid. Only a same-type requirement
  marks rules, and each of the two rules only when its right side is as long as the key.
\<close>

definition markMissingConformance ::
  "Term \<Rightarrow> RequirementKind \<Rightarrow> nat \<Rightarrow> nat \<Rightarrow> State \<Rightarrow> Error + State" where
  "markMissingConformance key requirementKind concreteRuleID conformanceRuleID st =
     (if requirementKind = SameType then
        (case getRule st concreteRuleID of
           Inl e \<Rightarrow> Inl e
         | Inr concreteRule \<Rightarrow>
             (let st1 = (if length (RHS concreteRule) = length key
                         then markConflicting concreteRuleID st else st)
              in
              (case getRule st1 conformanceRuleID of
                 Inl e \<Rightarrow> Inl e
               | Inr conformanceRule \<Rightarrow>
                   Inr (if length (RHS conformanceRule) = length key
                        then markConflicting conformanceRuleID st1 else st1))))
      else Inr st)"

text \<open>
  One turn of the loop over \<open>conformsTo\<close>, for the protocol \<open>proto\<close> and its rule
  \<open>conformanceRuleID\<close>. The state goes together with \<open>conformances\<close>, the vector of the
  property bag the caller handed in by reference.
\<close>

definition concretizeConformance ::
  "Env \<Rightarrow> Term \<Rightarrow> RequirementKind \<Rightarrow> nat \<Rightarrow> CanType \<Rightarrow> Term list \<Rightarrow> nat \<Rightarrow> ProtocolDecl
     \<Rightarrow> ProtocolConformance list \<times> State \<Rightarrow> Error + (ProtocolConformance list \<times> State)" where
  "concretizeConformance env key requirementKind concreteRuleID concreteType substitutions
       conformanceRuleID proto cs =
     (case cs of (conformances, st) \<Rightarrow>
      (let pair = (concreteRuleID, conformanceRuleID) in
       (case map_of (ConcreteConformances st) pair of
          Some found \<Rightarrow> Inr (conformances @ [found], st)
        | None \<Rightarrow>
            (case lookupConformance env concreteType proto of
               Invalid \<Rightarrow>
                 (case markMissingConformance key requirementKind concreteRuleID
                         conformanceRuleID st of
                    Inl e \<Rightarrow> Inl e
                  | Inr st1 \<Rightarrow> Inr (conformances, st1))
             | Abstract p \<Rightarrow> Inl AssertAbstractConformance
             | Concrete concrete \<Rightarrow>
                 (case insertConformance pair concrete (ConcreteConformances st) of
                    (table, inserted) \<Rightarrow>
                 (if \<not> inserted then Inl AssertInserted
                  else
                    (let st1 = st\<lparr>ConcreteConformances := table\<rparr>;
                         concreteConformanceSymbol =
                           forConcreteConformance concreteType substitutions proto
                     in
                     (case recordConcreteConformanceRule concreteRuleID conformanceRuleID
                             requirementKind concreteConformanceSymbol st1 of
                        Inl e \<Rightarrow> Inl e
                      | Inr st2 \<Rightarrow>
                     (case concretizeTypeWitnesses env key requirementKind
                             concreteConformanceSymbol concrete
                             (getAssociatedTypeMembers env proto) st2 of
                        Inl e \<Rightarrow> Inl e
                      | Inr st3 \<Rightarrow>
                          Inr (conformances @ [concrete],
                               (if getRootProtocol key = None
                                then inferConditionalRequirements env concrete
                                       substitutions st3
                                else st3)))))))))))"

text \<open>The loop over the indices of \<open>conformsTo\<close>, the two arrays read in step.\<close>

fun concretizeConformances ::
  "Env \<Rightarrow> Term \<Rightarrow> RequirementKind \<Rightarrow> nat \<Rightarrow> CanType \<Rightarrow> Term list \<Rightarrow> nat list
     \<Rightarrow> ProtocolDecl list \<Rightarrow> ProtocolConformance list \<times> State
     \<Rightarrow> Error + (ProtocolConformance list \<times> State)" where
  "concretizeConformances env key requirementKind concreteRuleID concreteType substitutions
       (conformanceRuleID # conformsToRules) (proto # conformsTo) cs =
     (case concretizeConformance env key requirementKind concreteRuleID concreteType
             substitutions conformanceRuleID proto cs of
        Inl e \<Rightarrow> Inl e
      | Inr cs1 \<Rightarrow>
          concretizeConformances env key requirementKind concreteRuleID concreteType
            substitutions conformsToRules conformsTo cs1)"
| "concretizeConformances env key requirementKind concreteRuleID concreteType substitutions
       conformsToRules conformsTo cs = Inr cs"

definition concretizeNestedTypesFromConcreteParent ::
  "Env \<Rightarrow> Term \<Rightarrow> RequirementKind \<Rightarrow> nat \<Rightarrow> CanType \<Rightarrow> Term list \<Rightarrow> nat list
     \<Rightarrow> ProtocolDecl list \<Rightarrow> ProtocolConformance list \<times> State
     \<Rightarrow> Error + (ProtocolConformance list \<times> State)" where
  "concretizeNestedTypesFromConcreteParent env key requirementKind concreteRuleID
       concreteType substitutions conformsToRules conformsTo cs =
     (if \<not> (requirementKind = SameType \<or> requirementKind = Superclass)
      then Inl AssertRequirementKind
      else if length conformsTo \<noteq> length conformsToRules then Inl AssertConformsToSize
      else concretizeConformances env key requirementKind concreteRuleID concreteType
             substitutions conformsToRules conformsTo cs)"

subsection \<open>concretizeNestedTypesFromConcreteParents\<close>

text \<open>
  One property bag: first its concrete type, then its superclass bound. The bag comes
  back with the conformances recorded in its two vectors.
\<close>

definition concretizeFromConcreteType ::
  "Env \<Rightarrow> PropertyBag \<times> State \<Rightarrow> Error + (PropertyBag \<times> State)" where
  "concretizeFromConcreteType env ps =
     (case ps of (props, st) \<Rightarrow>
      (case ConcreteTypeProperty props of
         None \<Rightarrow> Inr (props, st)
       | Some (symbol, ruleID) \<Rightarrow>
           (case getConcreteType symbol of None \<Rightarrow> Inl NoConcreteType | Some concreteType \<Rightarrow>
           (case getSubstitutions symbol of None \<Rightarrow> Inl NoConcreteType | Some substitutions \<Rightarrow>
           (case concretizeNestedTypesFromConcreteParent env (Key props) SameType ruleID
                   concreteType substitutions (ConformsToRules props) (ConformsTo props)
                   (BagConcreteConformances props, st) of
              Inl e \<Rightarrow> Inl e
            | Inr (conformances, st1) \<Rightarrow>
                Inr (props\<lparr>BagConcreteConformances := conformances\<rparr>, st1))))))"

definition concretizeFromSuperclass ::
  "Env \<Rightarrow> PropertyBag \<times> State \<Rightarrow> Error + (PropertyBag \<times> State)" where
  "concretizeFromSuperclass env ps =
     (case ps of (props, st) \<Rightarrow>
      (case SuperclassProperty props of
         None \<Rightarrow> Inr (props, st)
       | Some (symbol, ruleID) \<Rightarrow>
           (case getConcreteType symbol of None \<Rightarrow> Inl NoConcreteType | Some concreteType \<Rightarrow>
           (case getSubstitutions symbol of None \<Rightarrow> Inl NoConcreteType | Some substitutions \<Rightarrow>
           (case concretizeNestedTypesFromConcreteParent env (Key props) Superclass ruleID
                   concreteType substitutions (ConformsToRules props) (ConformsTo props)
                   (BagSuperclassConformances props, st) of
              Inl e \<Rightarrow> Inl e
            | Inr (conformances, st1) \<Rightarrow>
                Inr (props\<lparr>BagSuperclassConformances := conformances\<rparr>, st1))))))"

definition concretizeEntry ::
  "Env \<Rightarrow> PropertyBag \<Rightarrow> State \<Rightarrow> Error + (PropertyBag \<times> State)" where
  "concretizeEntry env props st =
     (if ConformsTo props = [] then Inr (props, st)
      else
        (case concretizeFromConcreteType env (props, st) of
           Inl e \<Rightarrow> Inl e
         | Inr ps1 \<Rightarrow> concretizeFromSuperclass env ps1))"

text \<open>The loop over \<open>Entries\<close>; the bags come back in the order they were visited.\<close>

fun concretizeNestedTypesFromConcreteParents ::
  "Env \<Rightarrow> PropertyBag list \<Rightarrow> State \<Rightarrow> Error + (PropertyBag list \<times> State)" where
  "concretizeNestedTypesFromConcreteParents env [] st = Inr ([], st)"
| "concretizeNestedTypesFromConcreteParents env (props # entries) st =
     (case concretizeEntry env props st of
        Inl e \<Rightarrow> Inl e
      | Inr (props1, st1) \<Rightarrow>
          (case concretizeNestedTypesFromConcreteParents env entries st1 of
             Inl e \<Rightarrow> Inl e
           | Inr (entries1, st2) \<Rightarrow> Inr (props1 # entries1, st2)))"

subsection \<open>The example of the source\<close>

text \<open>
  The comment above \<^verbatim>\<open>concretizeNestedTypesFromConcreteParent\<close> gives the protocols
  \<open>Q\<close> with the associated type \<open>V\<close> and \<open>P\<close> with the associated types \<open>A\<close> and
  \<open>C\<close>, the struct \<open>Foo<A, B : Q> : P\<close> with \<open>C = B.V\<close>, and the property bag
  \<open>T => { conforms_to: [P], concrete: Foo<Int, \<tau>_0_0> with <U> }\<close>.
\<close>

text \<open>
  Modelled from the spec: \<^verbatim>\<open>RewriteContext::getRelativeTermForType\<close> (not in src). A
  reference to the \<open>n\<close>th generic parameter becomes the \<open>n\<close>th substitution term, and
  each member type projection behind it becomes an associated type symbol at its end.
\<close>

fun relativeTermForType :: "CanType \<Rightarrow> Term list \<Rightarrow> Term" where
  "relativeTermForType (GenericTypeParamType d n) substitutions =
     (if n < length substitutions then substitutions ! n else [])"
| "relativeTermForType (DependentMemberType base p name) substitutions =
     relativeTermForType base substitutions @ [forAssociatedType p name]"
| "relativeTermForType t substitutions = []"

definition typeInt :: CanType where
  "typeInt = NominalType ''Int'' []"

definition typeFoo :: CanType where
  "typeFoo = NominalType ''Foo'' [typeInt, GenericTypeParamType 0 0]"

definition termT :: Term where
  "termT = [forGenericParam 0 0]"

definition termU :: Term where
  "termU = [forGenericParam 0 1]"

definition symbolFoo :: Symbol where
  "symbolFoo = forConcreteType typeFoo [termU]"

definition conformanceFooP :: ProtocolConformance where
  "conformanceFooP =
     \<lparr>ConformingType = typeFoo, ConformedProtocol = ''P'',
      TypeWitnesses = [(''A'', typeInt),
                       (''C'', DependentMemberType (GenericTypeParamType 0 0) ''Q'' ''V'')],
      ConditionalRequirements = []\<rparr>"

definition exampleEnv :: Env where
  "exampleEnv =
     \<lparr>lookupConformance =
        (\<lambda>t p. if t = typeFoo \<and> p = ''P'' then Concrete conformanceFooP else Invalid),
      getAssociatedTypeMembers = (\<lambda>p. if p = ''P'' then [''A'', ''C''] else [''V'']),
      getRelativeTermForType = relativeTermForType,
      getRelativeSubstitutionSchemaFromType = (\<lambda>t substitutions. (t, [])),
      lookUpProperties = (\<lambda>t. None),
      simplifySubstitutions = (\<lambda>rules key symbol. (None, [])),
      desugarRequirement = (\<lambda>req. [req]),
      ruleBuilder =
        (\<lambda>protos p.
           \<lparr>ReferencedProtocols = protos @ [p],
            PermanentRules = [([forAssociatedType p ''V'', forProtocol p],
                               [forAssociatedType p ''V''])],
            RequirementRules = []\<rparr>),
      getRuleForRequirement =
        (\<lambda>req substitutions.
           (case req of
              ConformanceRequirement t p \<Rightarrow>
                (relativeTermForType t substitutions @ [forProtocol p],
                 relativeTermForType t substitutions)
            | _ \<Rightarrow> ([], [])))\<rparr>"

definition exampleState :: State where
  "exampleState =
     \<lparr>Rules =
        [\<lparr>LHS = termT @ [symbolFoo], RHS = termT, Derivation = None, Permanent = False,
          Explicit = True, Conflicting = False\<rparr>,
         \<lparr>LHS = termT @ [forProtocol ''P''], RHS = termT, Derivation = None,
          Permanent = False, Explicit = True, Conflicting = False\<rparr>],
      Relations = [], Protos = [''P''], ConcreteConformances = []\<rparr>"

definition exampleBag :: PropertyBag where
  "exampleBag =
     \<lparr>Key = termT, ConformsTo = [''P''], ConformsToRules = [1],
      ConcreteTypeProperty = Some (symbolFoo, 0), SuperclassProperty = None,
      BagConcreteConformances = [], BagSuperclassConformances = []\<rparr>"

text \<open>
  A conformance of \<open>Foo\<close> to \<open>P\<close> that is conditional on its second argument
  conforming to \<open>Q\<close>, and an environment that finds it.
\<close>

definition conformanceConditional :: ProtocolConformance where
  "conformanceConditional =
     conformanceFooP\<lparr>ConditionalRequirements :=
       [ConformanceRequirement (GenericTypeParamType 0 0) ''Q'']\<rparr>"

definition conditionalEnv :: Env where
  "conditionalEnv =
     exampleEnv\<lparr>lookupConformance :=
       (\<lambda>t p. if t = typeFoo \<and> p = ''P'' then Concrete conformanceConditional
              else Invalid)\<rparr>"

text \<open>
  A key \<open>T.[P:A]\<close> that inherits the concrete type \<open>Int\<close> from its suffix \<open>[P:A]\<close> and
  is required to conform to \<open>Q\<close>: the concrete type rule has a right side shorter than
  the key.
\<close>

definition symbolA :: Symbol where
  "symbolA = forAssociatedType ''P'' ''A''"

definition termTA :: Term where
  "termTA = termT @ [symbolA]"

definition conflictState :: State where
  "conflictState =
     \<lparr>Rules =
        [\<lparr>LHS = [symbolA, forConcreteType typeInt []], RHS = [symbolA], Derivation = None,
          Permanent = False, Explicit = True, Conflicting = False\<rparr>,
         \<lparr>LHS = termTA @ [forProtocol ''Q''], RHS = termTA, Derivation = None,
          Permanent = False, Explicit = True, Conflicting = False\<rparr>],
      Relations = [], Protos = [''P'', ''Q''], ConcreteConformances = []\<rparr>"

text \<open>
  Two pairs of rules for rule merging. In the first the conformance rule comes from the
  suffix \<open>[P:A]\<close> and the concrete type rule is on \<open>T.[P:A]\<close>; in the second it is the
  other way round.
\<close>

definition typeBox :: CanType where
  "typeBox = NominalType ''Box'' [GenericTypeParamType 0 0]"

definition shortConformanceState :: State where
  "shortConformanceState =
     \<lparr>Rules =
        [\<lparr>LHS = termTA @ [forConcreteType typeBox [termU]], RHS = termTA,
          Derivation = None, Permanent = False, Explicit = True, Conflicting = False\<rparr>,
         \<lparr>LHS = [symbolA, forProtocol ''Q''], RHS = [symbolA], Derivation = None,
          Permanent = False, Explicit = True, Conflicting = False\<rparr>],
      Relations = [], Protos = [''P'', ''Q''], ConcreteConformances = []\<rparr>"

definition shortConcreteState :: State where
  "shortConcreteState =
     \<lparr>Rules =
        [\<lparr>LHS = [symbolA, forConcreteType typeBox [[forAssociatedType ''P'' ''B'']]],
          RHS = [symbolA], Derivation = None, Permanent = False, Explicit = True,
          Conflicting = False\<rparr>,
         \<lparr>LHS = termTA @ [forProtocol ''Q''], RHS = termTA, Derivation = None,
          Permanent = False, Explicit = True, Conflicting = False\<rparr>],
      Relations = [], Protos = [''P'', ''Q''], ConcreteConformances = []\<rparr>"

text \<open>
  The key \<open>T.[P:A].[P:C]\<close> with the concrete type \<open>Foo<Int, \<tau>_0_0> with <U>\<close> and
  the conformance to \<open>P\<close>, where \<open>T\<close> and \<open>T.[P:A]\<close> both have the concrete type
  \<open>Int\<close>: the four rules of the store, the property bags of the two prefixes, each
  with the rule its concrete type comes from, and an environment whose property map
  holds the two.
\<close>

definition termTAC :: Term where
  "termTAC = termTA @ [forAssociatedType ''P'' ''C'']"

definition tieOffState :: State where
  "tieOffState =
     \<lparr>Rules =
        [\<lparr>LHS = termT @ [forConcreteType typeInt []], RHS = termT, Derivation = None,
          Permanent = False, Explicit = True, Conflicting = False\<rparr>,
         \<lparr>LHS = termTA @ [forConcreteType typeInt []], RHS = termTA, Derivation = None,
          Permanent = False, Explicit = True, Conflicting = False\<rparr>,
         \<lparr>LHS = termTAC @ [symbolFoo], RHS = termTAC, Derivation = None,
          Permanent = False, Explicit = True, Conflicting = False\<rparr>,
         \<lparr>LHS = termTAC @ [forProtocol ''P''], RHS = termTAC, Derivation = None,
          Permanent = False, Explicit = True, Conflicting = False\<rparr>],
      Relations = [], Protos = [''P''], ConcreteConformances = []\<rparr>"

definition bagT :: PropertyBag where
  "bagT =
     \<lparr>Key = termT, ConformsTo = [], ConformsToRules = [],
      ConcreteTypeProperty = Some (forConcreteType typeInt [], 0), SuperclassProperty = None,
      BagConcreteConformances = [], BagSuperclassConformances = []\<rparr>"

definition bagTA :: PropertyBag where
  "bagTA =
     bagT\<lparr>Key := termTA, ConcreteTypeProperty := Some (forConcreteType typeInt [], 1)\<rparr>"

definition tieOffEnv :: Env where
  "tieOffEnv =
     exampleEnv\<lparr>lookUpProperties :=
       (\<lambda>t. if t = termT then Some bagT else if t = termTA then Some bagTA else None)\<rparr>"

text \<open>
  A concrete type \<open>Rec\<close> whose conformance to \<open>P\<close> has \<open>Rec\<close> itself as the type
  witness of \<open>A\<close>.
\<close>

definition typeRec :: CanType where
  "typeRec = NominalType ''Rec'' []"

definition conformanceRecP :: ProtocolConformance where
  "conformanceRecP =
     \<lparr>ConformingType = typeRec, ConformedProtocol = ''P'',
      TypeWitnesses = [(''A'', typeRec)], ConditionalRequirements = []\<rparr>"

text \<open>
  The conformance of \<open>Rec\<close> has no type witness for \<open>C\<close>. Two keys, \<open>T\<close> and
  \<open>U\<close>, have the concrete type \<open>Rec\<close> and conform to \<open>P\<close>.
\<close>

definition recEnv :: Env where
  "recEnv =
     exampleEnv\<lparr>lookupConformance :=
       (\<lambda>t p. if t = typeRec \<and> p = ''P'' then Concrete conformanceRecP else Invalid)\<rparr>"

definition recState :: State where
  "recState =
     \<lparr>Rules =
        [\<lparr>LHS = termT @ [forConcreteType typeRec []], RHS = termT, Derivation = None,
          Permanent = False, Explicit = True, Conflicting = False\<rparr>,
         \<lparr>LHS = termT @ [forProtocol ''P''], RHS = termT, Derivation = None,
          Permanent = False, Explicit = True, Conflicting = False\<rparr>,
         \<lparr>LHS = termU @ [forConcreteType typeRec []], RHS = termU, Derivation = None,
          Permanent = False, Explicit = True, Conflicting = False\<rparr>,
         \<lparr>LHS = termU @ [forProtocol ''P''], RHS = termU, Derivation = None,
          Permanent = False, Explicit = True, Conflicting = False\<rparr>],
      Relations = [], Protos = [''P''], ConcreteConformances = []\<rparr>"

definition recBagT :: PropertyBag where
  "recBagT =
     \<lparr>Key = termT, ConformsTo = [''P''], ConformsToRules = [1],
      ConcreteTypeProperty = Some (forConcreteType typeRec [], 0), SuperclassProperty = None,
      BagConcreteConformances = [], BagSuperclassConformances = []\<rparr>"

definition recBagU :: PropertyBag where
  "recBagU =
     \<lparr>Key = termU, ConformsTo = [''P''], ConformsToRules = [3],
      ConcreteTypeProperty = Some (forConcreteType typeRec [], 2), SuperclassProperty = None,
      BagConcreteConformances = [], BagSuperclassConformances = []\<rparr>"

section \<open>Properties\<close>

lemmas example_defs =
  exampleEnv_def exampleState_def exampleBag_def conformanceFooP_def typeInt_def typeFoo_def
  termT_def termU_def symbolFoo_def conformanceConditional_def conditionalEnv_def symbolA_def
  termTA_def conflictState_def typeBox_def shortConformanceState_def shortConcreteState_def
  bagT_def bagTA_def tieOffEnv_def termTAC_def tieOffState_def typeRec_def
  conformanceRecP_def recEnv_def recState_def recBagT_def recBagU_def

subsection \<open>A conformance lookup that fails\<close>

lemma markConflicting_Rules:
  "Rules (markConflicting i st) = (Rules st)[i := (Rules st ! i)\<lparr>Conflicting := True\<rparr>]"
  by (simp add: markConflicting_def)

lemma markMissing_SameType:
  assumes "c < length (Rules st)" and "p < length (Rules st)"
  shows "markMissingConformance key SameType c p st =
           Inr (st\<lparr>Rules := map (\<lambda>(i, r). if (i = c \<or> i = p) \<and> length (RHS r) = length key
                             then r\<lparr>Conflicting := True\<rparr> else r) (enumerate 0 (Rules st))\<rparr>)"
proof -
  let ?f = "\<lambda>(i, r). if (i = c \<or> i = p) \<and> length (RHS r) = length key
                             then r\<lparr>Conflicting := True\<rparr> else r"
  let ?st1 = "if length (RHS (Rules st ! c)) = length key then markConflicting c st else st"
  let ?st2 = "if length (RHS (Rules ?st1 ! p)) = length key then markConflicting p ?st1 else ?st1"
  have len1: "length (Rules ?st1) = length (Rules st)"
    by (simp add: markConflicting_Rules)
  have len2: "length (Rules ?st2) = length (Rules st)"
    by (simp add: markConflicting_Rules)
  have run: "markMissingConformance key SameType c p st = Inr ?st2"
    using assms len1 by (simp add: markMissingConformance_def getRule_def Let_def)
  have rhs1: "RHS (Rules ?st1 ! p) = RHS (Rules st ! p)"
    using assms by (simp add: markConflicting_Rules nth_list_update)
  have rules: "Rules ?st2 = map ?f (enumerate 0 (Rules st))"
  proof (rule nth_equalityI)
    show "length (Rules ?st2) = length (map ?f (enumerate 0 (Rules st)))"
      using len2 by simp
  next
    fix i assume "i < length (Rules ?st2)"
    then have i: "i < length (Rules st)" using len2 by simp
    then have r: "map ?f (enumerate 0 (Rules st)) ! i = ?f (i, Rules st ! i)"
      by (simp add: nth_enumerate_eq)
    have l: "Rules ?st2 ! i = ?f (i, Rules st ! i)"
      unfolding rhs1 using assms i
      by (simp add: markConflicting_Rules nth_list_update)
    show "Rules ?st2 ! i = map ?f (enumerate 0 (Rules st)) ! i"
      using l r by simp
  qed
  have rest: "?st2 = st\<lparr>Rules := Rules ?st2\<rparr>"
    by (simp add: markConflicting_def)
  show ?thesis using run rules rest by simp
qed

lemma markMissing_Superclass:
  "markMissingConformance key Superclass c p st = Inr st"
  by (simp add: markMissingConformance_def)

lemma concretizeConformance_Invalid:
  assumes "map_of (ConcreteConformances st) (c, p) = None"
    and "lookupConformance env ty proto = Invalid"
  shows "concretizeConformance env key kind c ty subs p proto (confs, st) =
           (case markMissingConformance key kind c p st of
              Inl e \<Rightarrow> Inl e | Inr st1 \<Rightarrow> Inr (confs, st1))"
  using assms by (simp add: concretizeConformance_def)

lemma insertConformance_miss:
  "map_of table pair = None \<Longrightarrow>
     insertConformance pair concrete table = (table @ [(pair, concrete)], True)"
  by (simp add: insertConformance_def)

lemma concretizeConformance_Concrete:
  assumes "map_of (ConcreteConformances st) (c, p) = None"
    and "lookupConformance env cty proto = Concrete concrete"
  shows "concretizeConformance env key kind c cty subs p proto (confs, st) =
           (case recordConcreteConformanceRule c p kind (forConcreteConformance cty subs proto)
                   (st\<lparr>ConcreteConformances :=
                         ConcreteConformances st @ [((c, p), concrete)]\<rparr>) of
              Inl e \<Rightarrow> Inl e
            | Inr stR \<Rightarrow>
                (case concretizeTypeWitnesses env key kind
                        (forConcreteConformance cty subs proto) concrete
                        (getAssociatedTypeMembers env proto) stR of
                   Inl e \<Rightarrow> Inl e
                 | Inr stW \<Rightarrow>
                     Inr (confs @ [concrete],
                          if getRootProtocol key = None
                          then inferConditionalRequirements env concrete subs stW
                          else stW)))"
  using assms by (simp add: concretizeConformance_def insertConformance_miss Let_def)

text \<open>
  C1, as the code has it. The pair of rules is not in the table and the concrete type has
  no conformance to the protocol. For a superclass requirement the state stays as it is
  and the loop goes on with the next protocol. For a same-type requirement the concrete
  type rule is marked conflicting when its right side is as long as the key, and so is
  the conformance rule; the loop goes on with the next protocol. In both cases no rule
  and no relation is added and the table stays as it is: the left sides, right sides and
  derivations of the rules are those of before.
\<close>

theorem missing_conformance_policy:
  fixes st :: State and key :: Term
  defines "marked c p \<equiv>
             st\<lparr>Rules := map (\<lambda>(i, r). if (i = c \<or> i = p) \<and> length (RHS r) = length key
                             then r\<lparr>Conflicting := True\<rparr> else r) (enumerate 0 (Rules st))\<rparr>"
  assumes "map_of (ConcreteConformances st) (c, p) = None"
    and "lookupConformance env ty proto = Invalid"
    and "c < length (Rules st)" and "p < length (Rules st)"
  shows "concretizeConformance env key Superclass c ty subs p proto (confs, st) =
           Inr (confs, st) \<and>
         concretizeConformances env key Superclass c ty subs (p # ps) (proto # protos)
             (confs, st) =
           concretizeConformances env key Superclass c ty subs ps protos (confs, st) \<and>
         concretizeConformance env key SameType c ty subs p proto (confs, st) =
           Inr (confs, marked c p) \<and>
         concretizeConformances env key SameType c ty subs (p # ps) (proto # protos)
             (confs, st) =
           concretizeConformances env key SameType c ty subs ps protos (confs, marked c p) \<and>
         map LHS (Rules (marked c p)) = map LHS (Rules st) \<and>
         map RHS (Rules (marked c p)) = map RHS (Rules st) \<and>
         map Derivation (Rules (marked c p)) = map Derivation (Rules st) \<and>
         Relations (marked c p) = Relations st \<and>
         ConcreteConformances (marked c p) = ConcreteConformances st"
proof -
  have super: "concretizeConformance env key Superclass c ty subs p proto (confs, st) =
                 Inr (confs, st)"
    using assms by (simp add: concretizeConformance_Invalid markMissing_Superclass)
  have same: "concretizeConformance env key SameType c ty subs p proto (confs, st) =
                Inr (confs, marked c p)"
    using assms by (simp add: concretizeConformance_Invalid markMissing_SameType)
  have fields: "map LHS (Rules (marked c p)) = map LHS (Rules st) \<and>
                map RHS (Rules (marked c p)) = map RHS (Rules st) \<and>
                map Derivation (Rules (marked c p)) = map Derivation (Rules st)"
    unfolding marked_def by (auto intro!: nth_equalityI simp: nth_enumerate_eq)
  show ?thesis using super same fields by (simp add: marked_def)
qed

theorem missing_conformance_policy_witness:
  "concretizeConformance exampleEnv termT Superclass 0 typeInt [] 1 ''P'' ([], exampleState) =
     Inr ([], exampleState) \<and>
   map_sum id (\<lambda>(cs, st). map Conflicting (Rules st))
     (concretizeConformance exampleEnv termT SameType 0 typeInt [] 1 ''P'' ([], exampleState)) =
     Inr [True, True] \<and>
   map_sum id (\<lambda>(cs, st). length (Rules st))
     (concretizeConformances exampleEnv termT SameType 0 typeInt [] [1] [''P'']
        ([], exampleState)) = Inr 2"
  using missing_conformance_policy [where st = exampleState and c = 0 and p = 1
      and env = exampleEnv and ty = typeInt and proto = "''P''" and key = termT
      and subs = "[]" and confs = "[]" and ps = "[]" and protos = "[]"]
  by (simp add: example_defs enumerate_eq_zip upt_rec)

text \<open>
  C1 as the specification states it says that both rules are marked. On the key
  \<open>T.[P:A]\<close>, with the concrete type rule \<open>[P:A].[concrete: Int] => [P:A]\<close> inherited
  from the suffix, \<open>Int\<close> has no conformance to \<open>Q\<close> and the concrete type rule (the
  first one) stays unmarked.
\<close>

theorem missing_conformance_marks_both_counterexample:
  "map_of (ConcreteConformances conflictState) (0, 1) = None \<and>
   lookupConformance exampleEnv typeInt ''Q'' = Invalid \<and>
   map_sum id (\<lambda>(cs, st). map Conflicting (Rules st))
     (concretizeConformance exampleEnv termTA SameType 0 typeInt [] 1 ''Q''
        ([], conflictState)) = Inr [False, True]"
  by (simp add: concretizeConformance_def markMissingConformance_def getRule_def
      markConflicting_def example_defs)

text \<open>
  C10. When the lookup fails for a same-type requirement, the rules of the state after
  the call are the rules before it, where the concrete type rule and the conformance
  rule are marked conflicting exactly when their right side has the length of the key;
  a rule of the pair with a right side of another length, and every other rule, is left
  as it is.
\<close>

theorem missing_conformance_marks_by_length:
  assumes "map_of (ConcreteConformances st) (c, p) = None"
    and "lookupConformance env ty proto = Invalid"
    and "c < length (Rules st)" and "p < length (Rules st)"
  shows "concretizeConformance env key SameType c ty subs p proto (confs, st) =
           Inr (confs,
                st\<lparr>Rules := map (\<lambda>(i, r). if (i = c \<or> i = p) \<and> length (RHS r) = length key
                             then r\<lparr>Conflicting := True\<rparr> else r) (enumerate 0 (Rules st))\<rparr>)"
  using assms by (simp add: concretizeConformance_Invalid markMissing_SameType)

theorem missing_conformance_marks_by_length_witness:
  "map_of (ConcreteConformances conflictState) (0, 1) = None \<and>
   lookupConformance exampleEnv typeInt ''Q'' = Invalid \<and>
   map_sum id (\<lambda>(cs, st). map (\<lambda>r. (length (RHS r), Conflicting r)) (Rules st))
     (concretizeConformance exampleEnv termTA SameType 0 typeInt [] 1 ''Q'' ([], conflictState))
     = Inr [(1, False), (2, True)] \<and> length termTA = 2"
  using missing_conformance_marks_by_length [of conflictState 0 1 exampleEnv typeInt "''Q''" termTA "[]" "[]"]
  by (simp add: example_defs enumerate_eq_zip upt_rec)

subsection \<open>Rule merging\<close>

lemma recordRelation_fields:
  "Rules (snd (recordRelation r st)) = Rules st"
  "Protos (snd (recordRelation r st)) = Protos st"
  "ConcreteConformances (snd (recordRelation r st)) = ConcreteConformances st"
  by (simp_all add: recordRelation_def split: option.splits)

lemma addRule_fields:
  "Rules (addRule lhs rhs path st) = Rules st @
     [\<lparr>LHS = lhs, RHS = rhs, Derivation = path, Permanent = False, Explicit = False,
       Conflicting = False\<rparr>]"
  "Relations (addRule lhs rhs path st) = Relations st"
  "Protos (addRule lhs rhs path st) = Protos st"
  "ConcreteConformances (addRule lhs rhs path st) = ConcreteConformances st"
  by (simp_all add: addRule_def)

text \<open>
  C3, as the code has it. From a concrete type rule \<open>c\<close> and a conformance rule \<open>p\<close>,
  both property rules, \<^verbatim>\<open>recordConcreteConformanceRule\<close> adds exactly one rule: its right
  side is the longer of the two right sides (the conformance rule's when they are equally
  long) and its left side is that term followed by the concrete conformance symbol. The
  substitution terms of the concrete type symbol are re-prefixed, by the leading symbols
  of the longer right side, when the right side of the concrete type rule is the shorter
  one and the concrete conformance symbol has substitutions; in every other case, also
  when the right side of the conformance rule is the shorter one, the concrete type
  symbol goes into the relation as it is. The derivation is the inverted path: the
  relation, the prefix substitution if any, the concrete type rule, the conformance rule.
\<close>

theorem compound_rule_from_pair:
  assumes "c < length (Rules st)" and "p < length (Rules st)"
    and "isPropertyRule (Rules st ! c) = Some concreteSymbol"
    and "isPropertyRule (Rules st ! p) = Some protocolSymbol"
    and "getSubstitutions conformanceSymbol = Some subs"
    and "concreteRHS = RHS (Rules st ! c)"
    and "conformanceRHS = RHS (Rules st ! p)"
    and "rhs = (if length concreteRHS > length conformanceRHS
                then concreteRHS else conformanceRHS)"
    and "prefixLength = length conformanceRHS - length concreteRHS"
    and "prefixed = (length concreteRHS < length conformanceRHS \<and> subs \<noteq> [])"
    and "folded = (if prefixed
                   then prependPrefixToConcreteSubstitutions
                          (take prefixLength conformanceRHS) concreteSymbol
                   else concreteSymbol)"
    and "recordRelation (ConcreteConformanceRelation folded protocolSymbol conformanceSymbol)
           st = (relationID, st1)"
    and "path = [forRelation (length rhs) relationID True]
                @ (if prefixed then [forPrefixSubstitutions prefixLength 1 True] else [])
                @ [forRewriteRule (length rhs - length concreteRHS) 1 c False,
                   forRewriteRule (length rhs - length conformanceRHS) 0 p False]"
  shows "recordConcreteConformanceRule c p kind conformanceSymbol st =
           Inr (addRule (rhs @ [conformanceSymbol]) rhs (Some path) st1) \<and>
         Rules (addRule (rhs @ [conformanceSymbol]) rhs (Some path) st1) =
           Rules st @ [\<lparr>LHS = rhs @ [conformanceSymbol], RHS = rhs, Derivation = Some path,
                        Permanent = False, Explicit = False, Conflicting = False\<rparr>]"
proof -
  have st1: "Rules st1 = Rules st"
    using assms(12)
      recordRelation_fields(1) [of "ConcreteConformanceRelation folded protocolSymbol conformanceSymbol" st]
    by simp
  have run: "recordConcreteConformanceRule c p kind conformanceSymbol st =
           Inr (addRule (rhs @ [conformanceSymbol]) rhs (Some path) st1)"
  proof (cases "length concreteRHS < length conformanceRHS \<and> subs \<noteq> []")
    case True
    then show ?thesis
      using assms
      by (simp add: recordConcreteConformanceRule_def getRule_def Let_def invert_def)
  next
    case False
    then show ?thesis
      using assms
      by (auto simp: recordConcreteConformanceRule_def getRule_def Let_def invert_def)
  qed
  show ?thesis using run st1 by (simp add: addRule_fields)
qed

theorem compound_rule_from_pair_witness:
  "map_sum id (\<lambda>st. (Relations st, map (\<lambda>r. (LHS r, RHS r, Derivation r)) (drop 2 (Rules st))))
     (recordConcreteConformanceRule 0 1 SameType
        (forConcreteConformance typeBox [termT @ [forAssociatedType ''P'' ''B'']] ''Q'')
        shortConcreteState) =
   Inr ([ConcreteConformanceRelation
           (forConcreteType typeBox [termT @ [forAssociatedType ''P'' ''B'']])
           (forProtocol ''Q'')
           (forConcreteConformance typeBox [termT @ [forAssociatedType ''P'' ''B'']] ''Q'')],
        [(termTA @ [forConcreteConformance typeBox [termT @ [forAssociatedType ''P'' ''B'']] ''Q''],
          termTA,
          Some [forRelation 2 0 True, forPrefixSubstitutions 1 1 True,
                forRewriteRule 1 1 0 False, forRewriteRule 0 0 1 False])])"
  using compound_rule_from_pair [where st = shortConcreteState and c = 0 and p = 1
      and kind = SameType
      and conformanceSymbol =
        "forConcreteConformance typeBox [termT @ [forAssociatedType ''P'' ''B'']] ''Q''",
      OF _ _ _ _ _ refl refl refl refl refl refl _ refl]
  by (simp add: example_defs isPropertyRule_def recordRelation_def addRule_def)

text \<open>
  C3 as the specification states it re-prefixes when the right side of the conformance
  rule is the shorter one. With the conformance rule \<open>[P:A].[Q] => [P:A]\<close> and the
  concrete type rule \<open>T.[P:A].[concrete: Box<\<tau>_0_0> with <U>] => T.[P:A]\<close>, the
  concrete type symbol enters the relation with its substitution \<open>U\<close> unchanged, and
  the derivation has no prefix substitution step.
\<close>

theorem compound_rule_prefix_counterexample:
  "length (RHS (Rules shortConformanceState ! 1)) < length (RHS (Rules shortConformanceState ! 0)) \<and>
   map_sum id (\<lambda>st. (Relations st, map Derivation (drop 2 (Rules st))))
     (recordConcreteConformanceRule 0 1 SameType (forConcreteConformance typeBox [termU] ''Q'')
        shortConformanceState) =
   Inr ([ConcreteConformanceRelation (forConcreteType typeBox [termU]) (forProtocol ''Q'')
           (forConcreteConformance typeBox [termU] ''Q'')],
        [Some [forRelation 2 0 True, forRewriteRule 0 1 0 False, forRewriteRule 1 0 1 False]])"
  by (simp add: recordConcreteConformanceRule_def getRule_def isPropertyRule_def
      recordRelation_def addRule_def invert_def Let_def example_defs)

subsection \<open>The rule for one type witness\<close>


lemma subject_symbols:
  "length (key @ [s, a]) - 2 = length key"
  "(key @ [s, a]) ! length key = s"
  "(key @ [s, a]) ! (length (key @ [s, a]) - 1) = a"
  "(key @ [s, a]) ! Suc (length key) = a"
  "\<not> length (key @ [s, a]) < 2"
  by (simp_all add: nth_append)





lemma computeConstraintTerm_concrete:
  assumes "\<not> isTypeParameter w"
    and "hasTypeParameter w \<or> scanPrefixes env w key (length key) = None"
    and "getRelativeSubstitutionSchemaFromType env w subs = (schema, result)"
  shows "computeConstraintTermForTypeWitness env key kind cty w subject subs path st =
           concreteTypeWitnessTerm env key kind cty (forConcreteType schema result) subject
             subs path st"
  using assms by (auto simp: computeConstraintTermForTypeWitness_def)

lemma concreteTypeWitnessTerm_path:
  "concreteTypeWitnessTerm env key kind cty tws subject subs path st = Inr (t, path', st')
     \<Longrightarrow> path' \<noteq> [] \<and> Rules st' = Rules st"
  by (auto simp: concreteTypeWitnessTerm_def Let_def recordRelation_def
      split: if_splits prod.splits sum.splits option.splits)

lemma computeConstraintTerm_path:
  "computeConstraintTermForTypeWitness env key kind cty w subject subs path st =
     Inr (t, path', st') \<Longrightarrow> path' \<noteq> [] \<and> Rules st' = Rules st"
  by (auto simp: computeConstraintTermForTypeWitness_def Let_def recordRelation_def
      dest: concreteTypeWitnessTerm_path
      split: if_splits prod.splits option.splits)

lemma concretizeTypeWitness_unfold:
  "concretizeTypeWitnessInConformance env key kind (forConcreteConformance cty subs proto)
       concrete M st =
     (case computeConstraintTermForTypeWitness env key kind cty
             (case getTypeWitness concrete M of None \<Rightarrow> ErrorType cty | Some t \<Rightarrow> t)
             (key @ [forConcreteConformance cty subs proto, forAssociatedType proto M])
             subs [] st of
        Inl e \<Rightarrow> Inl e
      | Inr (constraintType, path, st1) \<Rightarrow>
          Inr (addRule constraintType
                 (key @ [forConcreteConformance cty subs proto, forAssociatedType proto M])
                 (Some path) st1))"
  by (auto simp: concretizeTypeWitnessInConformance_def Let_def
      dest: computeConstraintTerm_path split: sum.splits)

lemmas run_defs =
  concretizeTypeWitnessInConformance_def computeConstraintTermForTypeWitness_def
  concreteTypeWitnessTerm_def simplifyTypeWitnessSymbol_def recordRelation_def addRule_def
  getTypeWitness_def isConcreteType_def bagConcreteType_def Let_def



lemma rewriteFirst_shorter:
  "rewriteFirst lhs rhs t = Some t' \<Longrightarrow> length rhs < length lhs \<Longrightarrow> length t' < length t"
proof (induction t arbitrary: t')
  case Nil
  then show ?case by simp
next
  case (Cons x xs)
  show ?case
  proof (cases "lhs \<noteq> [] \<and> take (length lhs) (x # xs) = lhs")
    case True
    then have t': "t' = rhs @ drop (length lhs) (x # xs)" using Cons.prems(1) by simp
    have "length (take (length lhs) (x # xs)) = length lhs"
      using True by simp
    then have "length lhs \<le> length (x # xs)"
      by (simp only: length_take)
    then show ?thesis using t' Cons.prems(2) by simp
  next
    case False
    then obtain u where u: "rewriteFirst lhs rhs xs = Some u" and t': "t' = x # u"
      using Cons.prems(1) by auto
    show ?thesis using Cons.IH [OF u Cons.prems(2)] t' by simp
  qed
qed

lemma reduceStep_shorter:
  "reduceStep rules t = Some t' \<Longrightarrow> length t' < length t"
  by (induction rules)
     (auto simp: applyRule_def split: option.splits if_splits dest: rewriteFirst_shorter)

lemma reduceWith_normal:
  "length t \<le> n \<Longrightarrow> reduceStep rules (reduceWith n rules t) = None"
proof (induction n arbitrary: t)
  case 0
  then have "t = []" by simp
  then show ?case by (cases "reduceStep rules []") (auto dest: reduceStep_shorter)
next
  case (Suc n)
  show ?case
  proof (cases "reduceStep rules t")
    case None
    then show ?thesis by simp
  next
    case (Some t')
    then have "length t' \<le> n" using reduceStep_shorter [OF Some] Suc.prems by simp
    then show ?thesis using Suc.IH Some by simp
  qed
qed

lemma reduceTerm_normal:
  "reduceStep rules (reduceTerm rules t) = None"
  by (simp add: reduceTerm_def reduceWith_normal)







text \<open>
  C7. The requirement is a same-type requirement, the type witness is concrete and no
  prefix of the key takes it, and the simplified type witness symbol has the concrete
  type and the substitutions of the parent. Then exactly one rule is added,
  \<open>T.S => T.S.[P:M]\<close>: its left side is one symbol longer than the key, its right side
  two, and its derivation is the same-type witness relation inverted, the path of the
  simplification, and the concrete type witness relation.
\<close>

theorem self_referential_witness_rule:
  assumes "getTypeWitness concrete M = Some w" and "\<not> isTypeParameter w"
    and "hasTypeParameter w \<or> scanPrefixes env w key (length key) = None"
    and "S = forConcreteConformance cty subs proto" and "A = forAssociatedType proto M"
    and "getRelativeSubstitutionSchemaFromType env w subs = (schema, result)"
    and "recordRelation (ConcreteTypeWitnessRelation S A (forConcreteType schema result)) st =
           (concreteRelationID, st')"
    and "simplifyTypeWitnessSymbol env st' key (forConcreteType schema result) =
           Inr (simplified, substPath)"
    and "getConcreteType simplified = Some cty"
    and "getSubstitutions simplified = Some subs"
    and "recordRelation (SameTypeWitnessRelation S A) st' = (sameRelationID, st'')"
    and "path = [forRelation (length key) sameRelationID True] @ substPath
                  @ [forRelation (length key) concreteRelationID False]"
  shows "concretizeTypeWitnessInConformance env key SameType S concrete M st =
           Inr (addRule (key @ [S]) (key @ [S, A]) (Some path) st'') \<and>
         Rules (addRule (key @ [S]) (key @ [S, A]) (Some path) st'') =
           Rules st @ [\<lparr>LHS = key @ [S], RHS = key @ [S, A], Derivation = Some path,
                        Permanent = False, Explicit = False, Conflicting = False\<rparr>] \<and>
         length (key @ [S]) = length key + 1 \<and> length (key @ [S, A]) = length key + 2"
proof -
  have t: "concreteTypeWitnessTerm env key SameType cty (forConcreteType schema result)
             (key @ [S, A]) subs [] st = Inr (key @ [S], path, st'')"
    using assms(7-12)
    by (simp add: concreteTypeWitnessTerm_def Let_def subject_symbols)
  have c: "computeConstraintTermForTypeWitness env key SameType cty w (key @ [S, A]) subs [] st =
             Inr (key @ [S], path, st'')"
    using computeConstraintTerm_concrete [OF assms(2,3,6)] t by simp
  have r: "Rules st'' = Rules st"
    using computeConstraintTerm_path [OF c] by simp
  show ?thesis
    using c r assms(1,4,5) by (simp add: concretizeTypeWitness_unfold addRule_def)
qed

theorem self_referential_witness_rule_witness:
  "map_sum id (\<lambda>st. map (\<lambda>r. (LHS r, RHS r, Derivation r)) (drop 2 (Rules st)))
     (concretizeTypeWitnessInConformance exampleEnv termT SameType
        (forConcreteConformance typeRec [] ''P'') conformanceRecP ''A'' exampleState) =
   Inr [(termT @ [forConcreteConformance typeRec [] ''P''],
         termT @ [forConcreteConformance typeRec [] ''P'', forAssociatedType ''P'' ''A''],
         Some [forRelation 1 1 True, forRelation 1 0 False])]"
  using self_referential_witness_rule [where concrete = conformanceRecP and M = "''A''"
      and w = typeRec and env = exampleEnv and key = termT and cty = typeRec and subs = "[]"
      and proto = "''P''" and schema = typeRec and result = "[]" and st = exampleState
      and concreteRelationID = 0 and sameRelationID = 1
      and simplified = "forConcreteType typeRec []" and substPath = "[]"
      and st' = "exampleState\<lparr>Relations :=
        [ConcreteTypeWitnessRelation (forConcreteConformance typeRec [] ''P'')
           (forAssociatedType ''P'' ''A'') (forConcreteType typeRec [])]\<rparr>"
      and st'' = "exampleState\<lparr>Relations :=
        [ConcreteTypeWitnessRelation (forConcreteConformance typeRec [] ''P'')
           (forAssociatedType ''P'' ''A'') (forConcreteType typeRec []),
         SameTypeWitnessRelation (forConcreteConformance typeRec [] ''P'')
           (forAssociatedType ''P'' ''A'')]\<rparr>",
      OF _ _ _ refl refl _ _ _ _ _ _ refl]
  by (simp add: example_defs run_defs)

lemma DifferenceRHS_type:
  "getConcreteType (DifferenceRHS difference) \<noteq> None"
  by (simp add: DifferenceRHS_def split: Symbol.splits)

lemma simplifyTypeWitnessSymbol_succeeds:
  assumes "\<forall>rules sym difference substPath.
             simplifySubstitutions env rules key sym = (Some difference, substPath) \<longrightarrow>
             DifferenceLHS difference = sym"
  shows "\<exists>s p. simplifyTypeWitnessSymbol env st key (forConcreteType schema result) = Inr (s, p) \<and>
               getConcreteType s \<noteq> None"
proof (cases "simplifySubstitutions env (Rules st) key (forConcreteType schema result)")
  case (Pair d p)
  show ?thesis
  proof (cases d)
    case None
    then show ?thesis using Pair by (simp add: simplifyTypeWitnessSymbol_def)
  next
    case (Some difference)
    then have "DifferenceLHS difference = forConcreteType schema result"
      using assms Pair by blast
    then show ?thesis
      using Pair Some DifferenceRHS_type [of difference]
      by (simp add: simplifyTypeWitnessSymbol_def)
  qed
qed

lemma concreteTypeWitnessTerm_succeeds:
  assumes "\<forall>rules sym difference substPath.
             simplifySubstitutions env rules key sym = (Some difference, substPath) \<longrightarrow>
             DifferenceLHS difference = sym"
  shows "\<exists>t p stC. concreteTypeWitnessTerm env key kind cty (forConcreteType schema result)
                      (key @ [S, A]) subs [] st = Inr (t, p, stC)"
proof -
  obtain cid st0 where rr: "recordRelation (ConcreteTypeWitnessRelation S A
      (forConcreteType schema result)) st = (cid, st0)"
    by (cases "recordRelation (ConcreteTypeWitnessRelation S A
      (forConcreteType schema result)) st")
  obtain s p ty where sp:
    "simplifyTypeWitnessSymbol env st0 key (forConcreteType schema result) = Inr (s, p)"
    "getConcreteType s = Some ty"
    using simplifyTypeWitnessSymbol_succeeds [OF assms, of st0 schema result] by auto
  show ?thesis
    using rr sp
    by (auto simp: concreteTypeWitnessTerm_def Let_def subject_symbols split: prod.splits)
qed

lemma computeConstraintTerm_succeeds:
  assumes "\<forall>rules sym difference substPath.
             simplifySubstitutions env rules key sym = (Some difference, substPath) \<longrightarrow>
             DifferenceLHS difference = sym"
  shows "\<exists>t p stC. computeConstraintTermForTypeWitness env key kind cty w
                      (key @ [S, A]) subs [] st = Inr (t, p, stC)"
proof (cases "isTypeParameter w")
  case True
  then show ?thesis
    by (auto simp: computeConstraintTermForTypeWitness_def Let_def split: prod.splits)
next
  case False
  obtain schema result where sr:
    "getRelativeSubstitutionSchemaFromType env w subs = (schema, result)"
    by (cases "getRelativeSubstitutionSchemaFromType env w subs")
  show ?thesis
  proof (cases "if \<not> hasTypeParameter w then scanPrefixes env w key (length key) else None")
    case (Some props)
    then show ?thesis
      using False sr
      by (auto simp: computeConstraintTermForTypeWitness_def Let_def split: prod.splits)
  next
    case None
    then show ?thesis
      using False sr concreteTypeWitnessTerm_succeeds [OF assms, of kind cty schema result S A subs st]
      by (simp add: computeConstraintTermForTypeWitness_def)
  qed
qed

lemma concretizeTypeWitness_succeeds:
  assumes "\<forall>rules sym difference substPath.
             simplifySubstitutions env rules key sym = (Some difference, substPath) \<longrightarrow>
             DifferenceLHS difference = sym"
  shows "\<exists>t p stC. p \<noteq> [] \<and> Rules stC = Rules st \<and>
           concretizeTypeWitnessInConformance env key kind
               (forConcreteConformance cty subs proto) concrete M st =
             Inr (addRule t (key @ [forConcreteConformance cty subs proto,
                                    forAssociatedType proto M]) (Some p) stC)"
proof -
  let ?w = "case getTypeWitness concrete M of None \<Rightarrow> ErrorType cty | Some t \<Rightarrow> t"
  let ?subject = "key @ [forConcreteConformance cty subs proto, forAssociatedType proto M]"
  obtain t p stC where c: "computeConstraintTermForTypeWitness env key kind cty ?w
      ?subject subs [] st = Inr (t, p, stC)"
    using computeConstraintTerm_succeeds [OF assms, of kind cty ?w
        "forConcreteConformance cty subs proto" "forAssociatedType proto M" subs st]
    by blast
  have "p \<noteq> [] \<and> Rules stC = Rules st"
    using computeConstraintTerm_path [OF c] .
  then show ?thesis
    using c by (auto simp: concretizeTypeWitness_unfold)
qed

lemma concretizeTypeWitnesses_succeeds:
  assumes "\<forall>rules sym difference substPath.
             simplifySubstitutions env rules key sym = (Some difference, substPath) \<longrightarrow>
             DifferenceLHS difference = sym"
  shows "\<exists>stW. concretizeTypeWitnesses env key kind (forConcreteConformance cty subs proto)
                  concrete Ms st = Inr stW \<and>
               take (length (Rules st)) (Rules stW) = Rules st \<and>
               map RHS (drop (length (Rules st)) (Rules stW)) =
                 map (\<lambda>m. key @ [forConcreteConformance cty subs proto,
                                  forAssociatedType proto m]) Ms"
proof (induction Ms arbitrary: st)
  case Nil
  then show ?case by simp
next
  case (Cons M Ms)
  obtain t p stC where one: "Rules stC = Rules st"
    "concretizeTypeWitnessInConformance env key kind
       (forConcreteConformance cty subs proto) concrete M st =
     Inr (addRule t (key @ [forConcreteConformance cty subs proto,
                            forAssociatedType proto M]) (Some p) stC)"
    using concretizeTypeWitness_succeeds [OF assms, of st kind cty subs proto concrete M]
    by blast
  let ?st1 = "addRule t (key @ [forConcreteConformance cty subs proto,
                                forAssociatedType proto M]) (Some p) stC"
  obtain stW where rest:
    "concretizeTypeWitnesses env key kind (forConcreteConformance cty subs proto)
       concrete Ms ?st1 = Inr stW"
    "take (length (Rules ?st1)) (Rules stW) = Rules ?st1"
    "map RHS (drop (length (Rules ?st1)) (Rules stW)) =
       map (\<lambda>m. key @ [forConcreteConformance cty subs proto, forAssociatedType proto m]) Ms"
    using Cons.IH [of ?st1] by blast
  have r1: "Rules ?st1 = Rules st @
      [\<lparr>LHS = t, RHS = key @ [forConcreteConformance cty subs proto,
                                 forAssociatedType proto M],
        Derivation = Some p, Permanent = False, Explicit = False, Conflicting = False\<rparr>]"
    using one(1) by (simp add: addRule_def)
  obtain tl where tl: "Rules stW = Rules ?st1 @ tl"
    using rest(2) by (metis append_take_drop_id)
  have "map RHS tl =
       map (\<lambda>m. key @ [forConcreteConformance cty subs proto, forAssociatedType proto m]) Ms"
    using rest(3) tl by simp
  then have "take (length (Rules st)) (Rules stW) = Rules st \<and>
        map RHS (drop (length (Rules st)) (Rules stW)) =
          map (\<lambda>m. key @ [forConcreteConformance cty subs proto,
                           forAssociatedType proto m]) (M # Ms)"
    using tl r1 by simp
  then show ?case using one(2) rest(1) by simp
qed


lemma concretizeParents_single:
  assumes "ConformsTo props = [proto]" and "ConformsToRules props = [p]"
    and "ConcreteTypeProperty props = Some (forConcreteType cty subs, c)"
    and "SuperclassProperty props = None"
    and "concretizeConformance env (Key props) SameType c cty subs p proto
           (BagConcreteConformances props, st) = Inr (confsA, stA)"
  shows "concretizeNestedTypesFromConcreteParents env (props # entries) st =
           (case concretizeNestedTypesFromConcreteParents env entries stA of
              Inl e \<Rightarrow> Inl e
            | Inr (es, stB) \<Rightarrow>
                Inr (props\<lparr>BagConcreteConformances := confsA\<rparr> # es, stB))"
proof -
  have parent: "concretizeNestedTypesFromConcreteParent env (Key props) SameType c cty subs
      (ConformsToRules props) (ConformsTo props) (BagConcreteConformances props, st) =
      Inr (confsA, stA)"
    using assms(1,2,5) by (simp add: concretizeNestedTypesFromConcreteParent_def)
  have entry: "concretizeEntry env props st =
      Inr (props\<lparr>BagConcreteConformances := confsA\<rparr>, stA)"
    using assms(1,3,4) parent
    by (simp add: concretizeEntry_def concretizeFromConcreteType_def
        concretizeFromSuperclass_def)
  show ?thesis using entry by simp
qed

text \<open>
  C9. When the conformance has no type witness for \<open>M\<close>, the call is the call with the
  error type of the concrete type as the witness. Given what line 382 asserts of the
  simplification of substitutions (a type difference has the symbol it was given on the
  left), the call does not fail: it adds exactly one rule, with the subject term
  \<open>T.S.[P:M]\<close> on the right and a derivation that is not empty, and the loop over the
  associated types goes on with the rest. So the loop over all associated types of the
  protocol ends with one rule for each of them, in their order; the turn for the protocol
  ends, and the loop over the protocols of the key goes on with the remaining ones; and
  for a property bag with this one protocol, the run goes on with the remaining property
  bags, from the state this key has left.
\<close>

theorem unresolved_witness_is_error_type:
  assumes "getTypeWitness concrete M = None"
    and "S = forConcreteConformance cty subs proto"
    and "\<forall>rules sym difference substPath.
           simplifySubstitutions env rules key sym = (Some difference, substPath) \<longrightarrow>
           DifferenceLHS difference = sym"
  shows "concretizeTypeWitnessInConformance env key kind S concrete M st =
           concretizeTypeWitnessInConformance env key kind S
             (concrete\<lparr>TypeWitnesses := (M, ErrorType cty) # TypeWitnesses concrete\<rparr>) M st \<and>
         (case concretizeTypeWitnessInConformance env key kind S concrete M st of
            Inl e \<Rightarrow> False
          | Inr st' \<Rightarrow>
              length (Rules st') = Suc (length (Rules st)) \<and>
              take (length (Rules st)) (Rules st') = Rules st \<and>
              RHS (last (Rules st')) = key @ [S, forAssociatedType proto M] \<and>
              Derivation (last (Rules st')) \<noteq> None \<and>
              Derivation (last (Rules st')) \<noteq> Some [] \<and>
              concretizeTypeWitnesses env key kind S concrete (M # rest) st =
                concretizeTypeWitnesses env key kind S concrete rest st') \<and>
         (M \<in> set (getAssociatedTypeMembers env proto) \<and>
          map_of (ConcreteConformances st) (c, p) = None \<and>
          lookupConformance env cty proto = Concrete concrete \<and>
          recordConcreteConformanceRule c p kind S
            (st\<lparr>ConcreteConformances := ConcreteConformances st @ [((c, p), concrete)]\<rparr>) =
            Inr stR \<longrightarrow>
          (case concretizeTypeWitnesses env key kind S concrete
                  (getAssociatedTypeMembers env proto) stR of
             Inl e \<Rightarrow> False
           | Inr stW \<Rightarrow>
               take (length (Rules stR)) (Rules stW) = Rules stR \<and>
               map RHS (drop (length (Rules stR)) (Rules stW)) =
                 map (\<lambda>m. key @ [S, forAssociatedType proto m])
                   (getAssociatedTypeMembers env proto) \<and>
               concretizeConformances env key kind c cty subs (p # ps) (proto # protos)
                   (confs, st) =
                 concretizeConformances env key kind c cty subs ps protos
                   (confs @ [concrete],
                    if getRootProtocol key = None
                    then inferConditionalRequirements env concrete subs stW else stW) \<and>
               (Key props = key \<and> ConformsTo props = [proto] \<and>
                ConformsToRules props = [p] \<and>
                ConcreteTypeProperty props = Some (forConcreteType cty subs, c) \<and>
                SuperclassProperty props = None \<and> kind = SameType \<longrightarrow>
                concretizeNestedTypesFromConcreteParents env (props # entries) st =
                  (case concretizeNestedTypesFromConcreteParents env entries
                          (if getRootProtocol key = None
                           then inferConditionalRequirements env concrete subs stW
                           else stW) of
                     Inl e \<Rightarrow> Inl e
                   | Inr (es, stB) \<Rightarrow>
                       Inr (props\<lparr>BagConcreteConformances :=
                                   BagConcreteConformances props @ [concrete]\<rparr> # es,
                            stB)))))"
proof -
  let ?subject = "key @ [S, forAssociatedType proto M]"
  have same: "concretizeTypeWitnessInConformance env key kind S concrete M st =
           concretizeTypeWitnessInConformance env key kind S
             (concrete\<lparr>TypeWitnesses := (M, ErrorType cty) # TypeWitnesses concrete\<rparr>) M st"
    using assms(1,2) by (simp add: concretizeTypeWitnessInConformance_def getTypeWitness_def)
  obtain t path stC where run: "path \<noteq> []" "Rules stC = Rules st"
    "concretizeTypeWitnessInConformance env key kind S concrete M st =
       Inr (addRule t ?subject (Some path) stC)"
    using concretizeTypeWitness_succeeds [OF assms(3), of st kind cty subs proto concrete M]
    unfolding assms(2) by blast
  have after: "(case concretizeTypeWitnessInConformance env key kind S concrete M st of
            Inl e \<Rightarrow> False
          | Inr st' \<Rightarrow>
              length (Rules st') = Suc (length (Rules st)) \<and>
              take (length (Rules st)) (Rules st') = Rules st \<and>
              RHS (last (Rules st')) = key @ [S, forAssociatedType proto M] \<and>
              Derivation (last (Rules st')) \<noteq> None \<and>
              Derivation (last (Rules st')) \<noteq> Some [] \<and>
              concretizeTypeWitnesses env key kind S concrete (M # rest) st =
                concretizeTypeWitnesses env key kind S concrete rest st')"
    unfolding concretizeTypeWitnesses.simps run(3) using run(1,2) by (simp add: addRule_def)
  have turn: "(case concretizeTypeWitnesses env key kind S concrete
                  (getAssociatedTypeMembers env proto) stR of
             Inl e \<Rightarrow> False
           | Inr stW \<Rightarrow>
               take (length (Rules stR)) (Rules stW) = Rules stR \<and>
               map RHS (drop (length (Rules stR)) (Rules stW)) =
                 map (\<lambda>m. key @ [S, forAssociatedType proto m])
                   (getAssociatedTypeMembers env proto) \<and>
               concretizeConformances env key kind c cty subs (p # ps) (proto # protos)
                   (confs, st) =
                 concretizeConformances env key kind c cty subs ps protos
                   (confs @ [concrete],
                    if getRootProtocol key = None
                    then inferConditionalRequirements env concrete subs stW else stW) \<and>
               (Key props = key \<and> ConformsTo props = [proto] \<and>
                ConformsToRules props = [p] \<and>
                ConcreteTypeProperty props = Some (forConcreteType cty subs, c) \<and>
                SuperclassProperty props = None \<and> kind = SameType \<longrightarrow>
                concretizeNestedTypesFromConcreteParents env (props # entries) st =
                  (case concretizeNestedTypesFromConcreteParents env entries
                          (if getRootProtocol key = None
                           then inferConditionalRequirements env concrete subs stW
                           else stW) of
                     Inl e \<Rightarrow> Inl e
                   | Inr (es, stB) \<Rightarrow>
                       Inr (props\<lparr>BagConcreteConformances :=
                                   BagConcreteConformances props @ [concrete]\<rparr> # es,
                            stB))))"
    if miss: "map_of (ConcreteConformances st) (c, p) = None"
      and look: "lookupConformance env cty proto = Concrete concrete"
      and rule: "recordConcreteConformanceRule c p kind S
            (st\<lparr>ConcreteConformances := ConcreteConformances st @ [((c, p), concrete)]\<rparr>) =
            Inr stR"
  proof -
    obtain stW where w:
      "concretizeTypeWitnesses env key kind S concrete (getAssociatedTypeMembers env proto) stR =
         Inr stW"
      "take (length (Rules stR)) (Rules stW) = Rules stR"
      "map RHS (drop (length (Rules stR)) (Rules stW)) =
         map (\<lambda>m. key @ [S, forAssociatedType proto m]) (getAssociatedTypeMembers env proto)"
      using concretizeTypeWitnesses_succeeds [OF assms(3), of kind cty subs proto concrete
          "getAssociatedTypeMembers env proto" stR]
      unfolding assms(2) by blast
    let ?next = "if getRootProtocol key = None
                 then inferConditionalRequirements env concrete subs stW else stW"
    have step: "concretizeConformance env k2 kind c cty subs p proto (cs, st) =
                  Inr (cs @ [concrete],
                       if getRootProtocol k2 = None
                       then inferConditionalRequirements env concrete subs stW else stW)"
      if "k2 = key" for k2 cs
      using concretizeConformance_Concrete [OF miss look, of key kind subs cs] rule w(1) that
      unfolding assms(2) by simp
    have loop: "concretizeConformances env key kind c cty subs (p # ps) (proto # protos)
                   (confs, st) =
                 concretizeConformances env key kind c cty subs ps protos
                   (confs @ [concrete], ?next)"
      using step [of key confs] by simp
    have driver: "concretizeNestedTypesFromConcreteParents env (props # entries) st =
                  (case concretizeNestedTypesFromConcreteParents env entries ?next of
                     Inl e \<Rightarrow> Inl e
                   | Inr (es, stB) \<Rightarrow>
                       Inr (props\<lparr>BagConcreteConformances :=
                                   BagConcreteConformances props @ [concrete]\<rparr> # es,
                            stB))"
      if b: "Key props = key" "ConformsTo props = [proto]" "ConformsToRules props = [p]"
        "ConcreteTypeProperty props = Some (forConcreteType cty subs, c)"
        "SuperclassProperty props = None" "kind = SameType"
    proof -
      have "concretizeConformance env (Key props) SameType c cty subs p proto
              (BagConcreteConformances props, st) =
            Inr (BagConcreteConformances props @ [concrete], ?next)"
        using step [of "Key props" "BagConcreteConformances props"] b(1,6) by simp
      then show ?thesis
        using concretizeParents_single [OF b(2,3,4,5)] by simp
    qed
    show ?thesis
      unfolding w(1) using w(2,3) loop driver by simp
  qed
  show ?thesis
    using same after turn by blast
qed

lemma rec_round:
  "map_sum id (\<lambda>(es, st). (map BagConcreteConformances es,
       map (\<lambda>r. (LHS r, RHS r)) (drop 4 (Rules st))))
     (concretizeNestedTypesFromConcreteParents recEnv [recBagT, recBagU] recState) =
   Inr ([[conformanceRecP], [conformanceRecP]],
        [(termT @ [forConcreteConformance typeRec [] ''P''], termT),
         (termT @ [forConcreteConformance typeRec [] ''P''],
          termT @ [forConcreteConformance typeRec [] ''P'', forAssociatedType ''P'' ''A'']),
         (termT @ [forConcreteConformance typeRec [] ''P'', forAssociatedType ''P'' ''C'',
                   forConcreteType (ErrorType typeRec) []],
          termT @ [forConcreteConformance typeRec [] ''P'', forAssociatedType ''P'' ''C'']),
         (termU @ [forConcreteConformance typeRec [] ''P''], termU),
         (termU @ [forConcreteConformance typeRec [] ''P''],
          termU @ [forConcreteConformance typeRec [] ''P'', forAssociatedType ''P'' ''A'']),
         (termU @ [forConcreteConformance typeRec [] ''P'', forAssociatedType ''P'' ''C'',
                   forConcreteType (ErrorType typeRec) []],
          termU @ [forConcreteConformance typeRec [] ''P'', forAssociatedType ''P'' ''C''])])"
  by code_simp

theorem unresolved_witness_is_error_type_witness:
  "getTypeWitness conformanceRecP ''C'' = None \<and>
   getAssociatedTypeMembers recEnv ''P'' = [''A'', ''C''] \<and>
   map_sum id (\<lambda>st. map (\<lambda>r. (LHS r, RHS r, Derivation r)) (drop 4 (Rules st)))
     (concretizeTypeWitnessInConformance recEnv termT SameType
        (forConcreteConformance typeRec [] ''P'') conformanceRecP ''C'' recState) =
   Inr [(termT @ [forConcreteConformance typeRec [] ''P'', forAssociatedType ''P'' ''C'',
                  forConcreteType (ErrorType typeRec) []],
         termT @ [forConcreteConformance typeRec [] ''P'', forAssociatedType ''P'' ''C''],
         Some [forRelation 1 0 False])] \<and>
   map_sum id (\<lambda>(es, st). (map BagConcreteConformances es,
       map (\<lambda>r. (LHS r, RHS r)) (drop 4 (Rules st))))
     (concretizeNestedTypesFromConcreteParents recEnv [recBagT, recBagU] recState) =
   Inr ([[conformanceRecP], [conformanceRecP]],
        [(termT @ [forConcreteConformance typeRec [] ''P''], termT),
         (termT @ [forConcreteConformance typeRec [] ''P''],
          termT @ [forConcreteConformance typeRec [] ''P'', forAssociatedType ''P'' ''A'']),
         (termT @ [forConcreteConformance typeRec [] ''P'', forAssociatedType ''P'' ''C'',
                   forConcreteType (ErrorType typeRec) []],
          termT @ [forConcreteConformance typeRec [] ''P'', forAssociatedType ''P'' ''C'']),
         (termU @ [forConcreteConformance typeRec [] ''P''], termU),
         (termU @ [forConcreteConformance typeRec [] ''P''],
          termU @ [forConcreteConformance typeRec [] ''P'', forAssociatedType ''P'' ''A'']),
         (termU @ [forConcreteConformance typeRec [] ''P'', forAssociatedType ''P'' ''C'',
                   forConcreteType (ErrorType typeRec) []],
          termU @ [forConcreteConformance typeRec [] ''P'', forAssociatedType ''P'' ''C''])])"
  using unresolved_witness_is_error_type [where concrete = conformanceRecP and M = "''C''"
      and cty = typeRec and subs = "[]" and proto = "''P''" and env = recEnv
      and key = termT and kind = SameType and st = recState and rest = "[]"
      and c = 0 and p = 1 and props = recBagT and entries = "[recBagU]"
      and ps = "[]" and protos = "[]" and confs = "[]", OF _ refl]
    rec_round
  by (simp add: example_defs run_defs)

subsection \<open>Conditional requirements\<close>

lemma foldl_addPermanentRule:
  "foldl (\<lambda>s rule. addPermanentRule (fst rule) (snd rule) s) st rs =
     st\<lparr>Rules := Rules st @
       map (\<lambda>rule. \<lparr>LHS = fst rule, RHS = snd rule, Derivation = None, Permanent = True,
                     Explicit = False, Conflicting = False\<rparr>) rs\<rparr>"
  by (induction rs arbitrary: st) (simp_all add: addPermanentRule_def)

lemma foldl_addExplicitRule:
  "foldl (\<lambda>s rule. addExplicitRule (fst rule) (snd rule) s) st rs =
     st\<lparr>Rules := Rules st @
       map (\<lambda>rule. \<lparr>LHS = fst rule, RHS = snd rule, Derivation = None, Permanent = False,
                     Explicit = True, Conflicting = False\<rparr>) rs\<rparr>"
  by (induction rs arbitrary: st) (simp_all add: addExplicitRule_def)

lemma registerProtocol_eq:
  "registerProtocol env proto st =
     st\<lparr>Protos := ReferencedProtocols (ruleBuilder env (Protos st) proto),
        Rules := Rules st @
          map (\<lambda>rule. \<lparr>LHS = fst rule, RHS = snd rule, Derivation = None, Permanent = True,
                        Explicit = False, Conflicting = False\<rparr>)
            (PermanentRules (ruleBuilder env (Protos st) proto)) @
          map (\<lambda>rule. \<lparr>LHS = fst rule, RHS = snd rule, Derivation = None, Permanent = False,
                        Explicit = True, Conflicting = False\<rparr>)
            (RequirementRules (ruleBuilder env (Protos st) proto))\<rparr>"
  by (simp add: registerProtocol_def Let_def foldl_addPermanentRule foldl_addExplicitRule)

lemma inferConditionalRequirement_fields:
  "\<exists>added. Rules (inferConditionalRequirement env subs st req) = Rules st @ added \<and>
           added \<noteq> [] \<and> (\<forall>r \<in> set added. Derivation r = None)"
  "Relations (inferConditionalRequirement env subs st req) = Relations st"
  "ConcreteConformances (inferConditionalRequirement env subs st req) = ConcreteConformances st"
  by (auto simp: inferConditionalRequirement_def Let_def addRule_def registerProtocol_eq
      split: Requirement.splits)

lemma foldl_inferConditionalRequirement:
  "\<exists>added. Rules (foldl (inferConditionalRequirement env subs) st reqs) = Rules st @ added \<and>
           (reqs \<noteq> [] \<longrightarrow> added \<noteq> []) \<and> (\<forall>r \<in> set added. Derivation r = None)"
proof (induction reqs arbitrary: st)
  case Nil
  then show ?case by simp
next
  case (Cons req reqs)
  obtain a where a: "Rules (inferConditionalRequirement env subs st req) = Rules st @ a"
    "a \<noteq> []" "\<forall>r \<in> set a. Derivation r = None"
    using inferConditionalRequirement_fields(1) [of env subs st req] by blast
  obtain b where b: "Rules (foldl (inferConditionalRequirement env subs)
      (inferConditionalRequirement env subs st req) reqs) =
      Rules (inferConditionalRequirement env subs st req) @ b"
    "\<forall>r \<in> set b. Derivation r = None"
    using Cons.IH [of "inferConditionalRequirement env subs st req"] by blast
  have "Rules (foldl (inferConditionalRequirement env subs) st (req # reqs)) = Rules st @ (a @ b)"
    using a b by simp
  moreover have "a @ b \<noteq> []" using a by simp
  moreover have "\<forall>r \<in> set (a @ b). Derivation r = None" using a b by auto
  ultimately show ?case by blast
qed

lemma foldl_inferConditionalRequirement_fields:
  "Relations (foldl (inferConditionalRequirement env subs) st reqs) = Relations st"
  "ConcreteConformances (foldl (inferConditionalRequirement env subs) st reqs) =
     ConcreteConformances st"
  by (induction reqs arbitrary: st) (simp_all add: inferConditionalRequirement_fields)

lemma inferConditionalRequirements_foldl:
  "inferConditionalRequirements env concrete subs st =
     foldl (inferConditionalRequirement env subs) st
       (concat (map (desugarRequirement env) (ConditionalRequirements concrete)))"
  by (simp add: inferConditionalRequirements_def Let_def)

lemma inferConditionalRequirements_fields:
  "Relations (inferConditionalRequirements env concrete subs st) = Relations st"
  "ConcreteConformances (inferConditionalRequirements env concrete subs st) =
     ConcreteConformances st"
  by (simp_all add: inferConditionalRequirements_foldl foldl_inferConditionalRequirement_fields)

text \<open>
  C8. When the pair of rules is not in the table and the lookup gives a concrete
  conformance, the turn of the loop is the compound rule, the rules of the associated
  types, and then \<^verbatim>\<open>inferConditionalRequirements\<close> exactly when the key has no root
  protocol. A conformance without conditional requirements leaves the state as it is.
  Otherwise the desugared requirements are handled one after the other: for a
  conformance requirement to a protocol the rewrite system does not know, the permanent
  rules and then the requirement rules of the rule builder are added first, and the rule
  for the requirement itself, made from the requirement and the substitution terms,
  comes behind them; for a known protocol and for any other kind of requirement only
  that rule is added.
\<close>

theorem conditional_requirements_inferred:
  assumes "map_of (ConcreteConformances st) (c, p) = None"
    and "lookupConformance env cty proto = Concrete concrete"
  shows "concretizeConformance env key kind c cty subs p proto (confs, st) =
           (case recordConcreteConformanceRule c p kind (forConcreteConformance cty subs proto)
                   (st\<lparr>ConcreteConformances :=
                         ConcreteConformances st @ [((c, p), concrete)]\<rparr>) of
              Inl e \<Rightarrow> Inl e
            | Inr stR \<Rightarrow>
                (case concretizeTypeWitnesses env key kind
                        (forConcreteConformance cty subs proto) concrete
                        (getAssociatedTypeMembers env proto) stR of
                   Inl e \<Rightarrow> Inl e
                 | Inr stW \<Rightarrow>
                     Inr (confs @ [concrete],
                          if getRootProtocol key = None
                          then inferConditionalRequirements env concrete subs stW
                          else stW))) \<and>
         (ConditionalRequirements concrete = [] \<longrightarrow>
            inferConditionalRequirements env concrete subs s = s) \<and>
         inferConditionalRequirements env concrete subs s =
           foldl (inferConditionalRequirement env subs) s
             (concat (map (desugarRequirement env) (ConditionalRequirements concrete))) \<and>
         Rules (inferConditionalRequirement env subs s (ConformanceRequirement t q)) =
           Rules s @
           (if isKnownProtocol s q then []
            else map (\<lambda>rule. \<lparr>LHS = fst rule, RHS = snd rule, Derivation = None,
                               Permanent = True, Explicit = False, Conflicting = False\<rparr>)
                   (PermanentRules (ruleBuilder env (Protos s) q)) @
                 map (\<lambda>rule. \<lparr>LHS = fst rule, RHS = snd rule, Derivation = None,
                               Permanent = False, Explicit = True, Conflicting = False\<rparr>)
                   (RequirementRules (ruleBuilder env (Protos s) q))) @
           [\<lparr>LHS = fst (getRuleForRequirement env (ConformanceRequirement t q) subs),
             RHS = snd (getRuleForRequirement env (ConformanceRequirement t q) subs),
             Derivation = None, Permanent = False, Explicit = False, Conflicting = False\<rparr>] \<and>
         (getKind req \<noteq> Conformance \<longrightarrow>
            Rules (inferConditionalRequirement env subs s req) =
              Rules s @
              [\<lparr>LHS = fst (getRuleForRequirement env req subs),
                RHS = snd (getRuleForRequirement env req subs),
                Derivation = None, Permanent = False, Explicit = False,
                Conflicting = False\<rparr>])"
proof -
  have gate: "concretizeConformance env key kind c cty subs p proto (confs, st) =
           (case recordConcreteConformanceRule c p kind (forConcreteConformance cty subs proto)
                   (st\<lparr>ConcreteConformances :=
                         ConcreteConformances st @ [((c, p), concrete)]\<rparr>) of
              Inl e \<Rightarrow> Inl e
            | Inr stR \<Rightarrow>
                (case concretizeTypeWitnesses env key kind
                        (forConcreteConformance cty subs proto) concrete
                        (getAssociatedTypeMembers env proto) stR of
                   Inl e \<Rightarrow> Inl e
                 | Inr stW \<Rightarrow>
                     Inr (confs @ [concrete],
                          if getRootProtocol key = None
                          then inferConditionalRequirements env concrete subs stW
                          else stW)))"
    using concretizeConformance_Concrete [OF assms] .
  have empty: "ConditionalRequirements concrete = [] \<longrightarrow>
            inferConditionalRequirements env concrete subs s = s"
    by (simp add: inferConditionalRequirements_def)
  have conf: "Rules (inferConditionalRequirement env subs s (ConformanceRequirement t q)) =
           Rules s @
           (if isKnownProtocol s q then []
            else map (\<lambda>rule. \<lparr>LHS = fst rule, RHS = snd rule, Derivation = None,
                               Permanent = True, Explicit = False, Conflicting = False\<rparr>)
                   (PermanentRules (ruleBuilder env (Protos s) q)) @
                 map (\<lambda>rule. \<lparr>LHS = fst rule, RHS = snd rule, Derivation = None,
                               Permanent = False, Explicit = True, Conflicting = False\<rparr>)
                   (RequirementRules (ruleBuilder env (Protos s) q))) @
           [\<lparr>LHS = fst (getRuleForRequirement env (ConformanceRequirement t q) subs),
             RHS = snd (getRuleForRequirement env (ConformanceRequirement t q) subs),
             Derivation = None, Permanent = False, Explicit = False, Conflicting = False\<rparr>]"
    by (simp add: inferConditionalRequirement_def Let_def addRule_def registerProtocol_eq)
  have other: "getKind req \<noteq> Conformance \<longrightarrow>
            Rules (inferConditionalRequirement env subs s req) =
              Rules s @
              [\<lparr>LHS = fst (getRuleForRequirement env req subs),
                RHS = snd (getRuleForRequirement env req subs),
                Derivation = None, Permanent = False, Explicit = False,
                Conflicting = False\<rparr>]"
    by (cases req) (simp_all add: inferConditionalRequirement_def Let_def addRule_def)
  show ?thesis
    using gate empty conf other inferConditionalRequirements_foldl [of env concrete subs s]
    by blast
qed

lemma conditional_run:
  "map_sum id (\<lambda>(cs, st). (cs, Protos st,
       map (\<lambda>r. (LHS r, RHS r, Permanent r, Derivation r)) (drop 5 (Rules st))))
     (concretizeConformance conditionalEnv termT SameType 0 typeFoo [termU] 1 ''P''
        ([], exampleState)) =
   Inr ([conformanceConditional], [''P'', ''Q''],
        [([forAssociatedType ''Q'' ''V'', forProtocol ''Q''], [forAssociatedType ''Q'' ''V''],
          True, None),
         (termU @ [forProtocol ''Q''], termU, False, None)])"
  by code_simp

lemma conditional_run_protocol_key:
  "map_sum id (\<lambda>(cs, st). (cs, Protos st, drop 5 (Rules st)))
     (concretizeConformance conditionalEnv [forAssociatedType ''R'' ''X''] SameType 0 typeFoo
        [termU] 1 ''P'' ([], exampleState)) =
   Inr ([conformanceConditional], [''P''], [])"
  by code_simp

theorem conditional_requirements_inferred_witness:
  "map_of (ConcreteConformances exampleState) (0, 1) = None \<and>
   lookupConformance conditionalEnv typeFoo ''P'' = Concrete conformanceConditional \<and>
   getRootProtocol termT = None \<and>
   map_sum id (\<lambda>(cs, st). (cs, Protos st,
       map (\<lambda>r. (LHS r, RHS r, Permanent r, Derivation r)) (drop 5 (Rules st))))
     (concretizeConformance conditionalEnv termT SameType 0 typeFoo [termU] 1 ''P''
        ([], exampleState)) =
   Inr ([conformanceConditional], [''P'', ''Q''],
        [([forAssociatedType ''Q'' ''V'', forProtocol ''Q''], [forAssociatedType ''Q'' ''V''],
          True, None),
         (termU @ [forProtocol ''Q''], termU, False, None)]) \<and>
   getRootProtocol [forAssociatedType ''R'' ''X''] = Some ''R'' \<and>
   map_sum id (\<lambda>(cs, st). (cs, Protos st, drop 5 (Rules st)))
     (concretizeConformance conditionalEnv [forAssociatedType ''R'' ''X''] SameType 0 typeFoo
        [termU] 1 ''P'' ([], exampleState)) =
   Inr ([conformanceConditional], [''P''], [])"
  using conditional_requirements_inferred [where st = exampleState and c = 0 and p = 1
      and env = conditionalEnv and cty = typeFoo and proto = "''P''"
      and concrete = conformanceConditional and key = termT and kind = SameType
      and subs = "[termU]" and confs = "[]"]
    conditional_run conditional_run_protocol_key
  by (simp add: example_defs)

subsection \<open>Derivations of the rules added\<close>

lemma recordConcreteConformanceRule_adds:
  assumes "recordConcreteConformanceRule c p kind S st = Inr st'"
  shows "\<exists>lhs rhs path. path \<noteq> [] \<and>
           Rules st' = Rules st @ [\<lparr>LHS = lhs, RHS = rhs, Derivation = Some path,
                                   Permanent = False, Explicit = False, Conflicting = False\<rparr>]"
  using assms
  by (auto simp: recordConcreteConformanceRule_def Let_def addRule_def invert_def
      recordRelation_def split: sum.splits option.splits prod.splits if_splits)

lemma concretizeTypeWitness_adds:
  assumes "concretizeTypeWitnessInConformance env key kind S concrete M st = Inr st'"
  shows "\<exists>lhs rhs path. path \<noteq> [] \<and>
           Rules st' = Rules st @ [\<lparr>LHS = lhs, RHS = rhs, Derivation = Some path,
                                   Permanent = False, Explicit = False, Conflicting = False\<rparr>]"
proof -
  obtain cty subs proto where S: "S = forConcreteConformance cty subs proto"
    using assms by (cases S) (simp_all add: concretizeTypeWitnessInConformance_def)
  obtain t path stC where c: "computeConstraintTermForTypeWitness env key kind cty
      (case getTypeWitness concrete M of None \<Rightarrow> ErrorType cty | Some t \<Rightarrow> t)
      (key @ [forConcreteConformance cty subs proto, forAssociatedType proto M]) subs [] st =
      Inr (t, path, stC)"
    and st': "st' = addRule t (key @ [forConcreteConformance cty subs proto,
      forAssociatedType proto M]) (Some path) stC"
    using assms unfolding S concretizeTypeWitness_unfold by (auto split: sum.splits)
  have "path \<noteq> [] \<and> Rules stC = Rules st"
    using computeConstraintTerm_path [OF c] .
  then show ?thesis unfolding st' by (simp add: addRule_def)
qed

text \<open>
  C4, as the code has it. The compound rule of \<^verbatim>\<open>recordConcreteConformanceRule\<close> and the
  rule of \<^verbatim>\<open>concretizeTypeWitnessInConformance\<close> are each the one rule added by the
  call, and each carries a derivation that is not empty. The rules added by
  \<^verbatim>\<open>inferConditionalRequirements\<close> carry no derivation, and there is at least one of
  them as soon as a conditional requirement desugars to a requirement.
\<close>

theorem derivation_paths_of_added_rules:
  "(case recordConcreteConformanceRule c p kind S st of
      Inl e \<Rightarrow> True
    | Inr st' \<Rightarrow>
        length (Rules st') = Suc (length (Rules st)) \<and>
        take (length (Rules st)) (Rules st') = Rules st \<and>
        Derivation (last (Rules st')) \<noteq> None \<and> Derivation (last (Rules st')) \<noteq> Some []) \<and>
   (case concretizeTypeWitnessInConformance env key kind S concrete M st of
      Inl e \<Rightarrow> True
    | Inr st' \<Rightarrow>
        length (Rules st') = Suc (length (Rules st)) \<and>
        take (length (Rules st)) (Rules st') = Rules st \<and>
        Derivation (last (Rules st')) \<noteq> None \<and> Derivation (last (Rules st')) \<noteq> Some []) \<and>
   take (length (Rules st)) (Rules (inferConditionalRequirements env concrete subs st)) =
     Rules st \<and>
   (\<forall>r \<in> set (drop (length (Rules st))
                 (Rules (inferConditionalRequirements env concrete subs st))).
      Derivation r = None) \<and>
   (concat (map (desugarRequirement env) (ConditionalRequirements concrete)) \<noteq> [] \<longrightarrow>
      length (Rules st) < length (Rules (inferConditionalRequirements env concrete subs st)))"
proof -
  have compound: "(case recordConcreteConformanceRule c p kind S st of
      Inl e \<Rightarrow> True
    | Inr st' \<Rightarrow>
        length (Rules st') = Suc (length (Rules st)) \<and>
        take (length (Rules st)) (Rules st') = Rules st \<and>
        Derivation (last (Rules st')) \<noteq> None \<and> Derivation (last (Rules st')) \<noteq> Some [])"
  proof (cases "recordConcreteConformanceRule c p kind S st")
    case (Inl e)
    then show ?thesis by simp
  next
    case (Inr st')
    then show ?thesis
      using recordConcreteConformanceRule_adds [OF Inr] by auto
  qed
  have member: "(case concretizeTypeWitnessInConformance env key kind S concrete M st of
      Inl e \<Rightarrow> True
    | Inr st' \<Rightarrow>
        length (Rules st') = Suc (length (Rules st)) \<and>
        take (length (Rules st)) (Rules st') = Rules st \<and>
        Derivation (last (Rules st')) \<noteq> None \<and> Derivation (last (Rules st')) \<noteq> Some [])"
  proof (cases "concretizeTypeWitnessInConformance env key kind S concrete M st")
    case (Inl e)
    then show ?thesis by simp
  next
    case (Inr st')
    then show ?thesis
      using concretizeTypeWitness_adds [OF Inr] by auto
  qed
  obtain added where added:
    "Rules (inferConditionalRequirements env concrete subs st) = Rules st @ added"
    "concat (map (desugarRequirement env) (ConditionalRequirements concrete)) \<noteq> [] \<longrightarrow>
       added \<noteq> []"
    "\<forall>r \<in> set added. Derivation r = None"
    using foldl_inferConditionalRequirement [of env subs st
        "concat (map (desugarRequirement env) (ConditionalRequirements concrete))"]
    unfolding inferConditionalRequirements_foldl by blast
  have cond: "take (length (Rules st)) (Rules (inferConditionalRequirements env concrete subs st)) =
     Rules st \<and>
   (\<forall>r \<in> set (drop (length (Rules st))
                 (Rules (inferConditionalRequirements env concrete subs st))).
      Derivation r = None) \<and>
   (concat (map (desugarRequirement env) (ConditionalRequirements concrete)) \<noteq> [] \<longrightarrow>
      length (Rules st) < length (Rules (inferConditionalRequirements env concrete subs st)))"
    using added by auto
  show ?thesis using compound member cond by blast
qed

theorem derivation_paths_of_added_rules_witness:
  "map_sum id (\<lambda>st. map Derivation (drop 2 (Rules st)))
     (recordConcreteConformanceRule 0 1 SameType (forConcreteConformance typeFoo [termU] ''P'')
        exampleState) =
     Inr [Some [forRelation 1 0 True, forRewriteRule 0 1 0 False, forRewriteRule 0 0 1 False]] \<and>
   map_sum id (\<lambda>st. map Derivation (drop 2 (Rules st)))
     (concretizeTypeWitnessInConformance exampleEnv termT SameType
        (forConcreteConformance typeFoo [termU] ''P'') conformanceFooP ''A'' exampleState) =
     Inr [Some [forRelation 1 0 False]] \<and>
   map Derivation (drop 2 (Rules
     (inferConditionalRequirements exampleEnv conformanceConditional [termU] exampleState))) =
     [None, None]"
  using derivation_paths_of_added_rules [where c = 0 and p = 1 and kind = SameType
      and S = "forConcreteConformance typeFoo [termU] ''P''" and st = exampleState
      and env = exampleEnv and key = termT and concrete = conformanceConditional
      and M = "''A''" and subs = "[termU]"]
  by code_simp

text \<open>
  C4 as the specification states it gives every rule added a derivation. For the
  conformance of \<open>Foo\<close> conditional on \<open>\<tau>_0_0 : Q\<close>, the rule \<open>U.[Q] => U\<close> is
  added without one (line 584), behind the permanent rule of \<open>Q\<close>.
\<close>

theorem conditional_rule_without_path_counterexample:
  "map (\<lambda>r. (LHS r, RHS r, Derivation r)) (drop 2 (Rules
     (inferConditionalRequirements exampleEnv conformanceConditional [termU] exampleState))) =
   [([forAssociatedType ''Q'' ''V'', forProtocol ''Q''], [forAssociatedType ''Q'' ''V''], None),
    (termU @ [forProtocol ''Q''], termU, None)]"
  by code_simp

subsection \<open>The table of concrete conformances\<close>

lemma recordConcreteConformanceRule_table:
  "recordConcreteConformanceRule c p kind S st = Inr st' \<Longrightarrow>
     ConcreteConformances st' = ConcreteConformances st"
  by (auto simp: recordConcreteConformanceRule_def Let_def addRule_def recordRelation_def
      split: sum.splits option.splits prod.splits if_splits)

lemma concreteTypeWitnessTerm_table:
  "concreteTypeWitnessTerm env key kind cty tws subject subs path st = Inr (t, path', st')
     \<Longrightarrow> ConcreteConformances st' = ConcreteConformances st"
  by (auto simp: concreteTypeWitnessTerm_def Let_def recordRelation_def
      split: if_splits prod.splits sum.splits option.splits)

lemma computeConstraintTerm_table:
  "computeConstraintTermForTypeWitness env key kind cty w subject subs path st =
     Inr (t, path', st') \<Longrightarrow> ConcreteConformances st' = ConcreteConformances st"
  by (auto simp: computeConstraintTermForTypeWitness_def Let_def recordRelation_def
      dest: concreteTypeWitnessTerm_table
      split: if_splits prod.splits option.splits)

lemma concretizeTypeWitness_table:
  assumes "concretizeTypeWitnessInConformance env key kind S concrete M st = Inr st'"
  shows "ConcreteConformances st' = ConcreteConformances st"
proof -
  obtain cty subs proto where S: "S = forConcreteConformance cty subs proto"
    using assms by (cases S) (simp_all add: concretizeTypeWitnessInConformance_def)
  obtain t path stC where c: "computeConstraintTermForTypeWitness env key kind cty
      (case getTypeWitness concrete M of None \<Rightarrow> ErrorType cty | Some t \<Rightarrow> t)
      (key @ [forConcreteConformance cty subs proto, forAssociatedType proto M]) subs [] st =
      Inr (t, path, stC)"
    and st': "st' = addRule t (key @ [forConcreteConformance cty subs proto,
      forAssociatedType proto M]) (Some path) stC"
    using assms unfolding S concretizeTypeWitness_unfold by (auto split: sum.splits)
  show ?thesis
    unfolding st' using computeConstraintTerm_table [OF c] by (simp add: addRule_def)
qed

lemma concretizeTypeWitnesses_table:
  "concretizeTypeWitnesses env key kind S concrete Ms st = Inr st' \<Longrightarrow>
     ConcreteConformances st' = ConcreteConformances st"
proof (induction Ms arbitrary: st)
  case Nil
  then show ?case by simp
next
  case (Cons M Ms)
  then show ?case
    by (auto split: sum.splits dest: concretizeTypeWitness_table)
qed

lemma markMissingConformance_table:
  "markMissingConformance key kind c p st = Inr st' \<Longrightarrow>
     ConcreteConformances st' = ConcreteConformances st \<and>
     length (Rules st') = length (Rules st)"
  by (auto simp: markMissingConformance_def Let_def getRule_def markConflicting_def
      split: if_splits sum.splits)

text \<open>No function of the file but the insertion itself gives the insertion error.\<close>

lemma recordConcreteConformanceRule_not_inserted:
  "recordConcreteConformanceRule c p kind S st \<noteq> Inl AssertInserted"
  by (auto simp: recordConcreteConformanceRule_def Let_def getRule_def
      split: sum.splits option.splits prod.splits if_splits)

lemma concreteTypeWitnessTerm_not_inserted:
  "concreteTypeWitnessTerm env key kind cty tws subject subs path st \<noteq> Inl AssertInserted"
  by (auto simp: concreteTypeWitnessTerm_def simplifyTypeWitnessSymbol_def Let_def
      split: if_splits prod.splits sum.splits option.splits)

lemma computeConstraintTerm_not_inserted:
  "computeConstraintTermForTypeWitness env key kind cty w subject subs path st \<noteq>
     Inl AssertInserted"
  using concreteTypeWitnessTerm_not_inserted
  by (auto simp: computeConstraintTermForTypeWitness_def Let_def
      split: if_splits prod.splits option.splits)

lemma concretizeTypeWitness_not_inserted:
  "concretizeTypeWitnessInConformance env key kind S concrete M st \<noteq> Inl AssertInserted"
  using computeConstraintTerm_not_inserted
  by (auto simp: concretizeTypeWitnessInConformance_def Let_def
      split: Symbol.splits sum.splits if_splits)

lemma concretizeTypeWitnesses_not_inserted:
  "concretizeTypeWitnesses env key kind S concrete Ms st \<noteq> Inl AssertInserted"
proof (induction Ms arbitrary: st)
  case Nil
  then show ?case by simp
next
  case (Cons M Ms)
  then show ?case
    using concretizeTypeWitness_not_inserted by (auto split: sum.splits)
qed

lemma markMissingConformance_not_inserted:
  "markMissingConformance key kind c p st \<noteq> Inl AssertInserted"
  by (auto simp: markMissingConformance_def Let_def getRule_def split: if_splits sum.splits)

lemma concretizeConformance_not_inserted:
  "concretizeConformance env key kind c cty subs p proto cs \<noteq> Inl AssertInserted"
proof (cases cs)
  case (Pair confs st)
  show ?thesis
  proof (cases "map_of (ConcreteConformances st) (c, p)")
    case (Some found)
    then show ?thesis using Pair by (simp add: concretizeConformance_def)
  next
    case None
    show ?thesis
    proof (cases "lookupConformance env cty proto")
      case Invalid
      then show ?thesis
        using Pair None markMissingConformance_not_inserted [of key kind c p st]
        by (auto simp: concretizeConformance_Invalid split: sum.splits)
    next
      case (Abstract q)
      then show ?thesis using Pair None by (simp add: concretizeConformance_def)
    next
      case (Concrete concrete)
      then show ?thesis
        using Pair None recordConcreteConformanceRule_not_inserted
          concretizeTypeWitnesses_not_inserted
        by (auto simp: concretizeConformance_Concrete split: sum.splits)
    qed
  qed
qed

lemma concretizeConformances_not_inserted:
  "concretizeConformances env key kind c cty subs ps protos cs \<noteq> Inl AssertInserted"
proof (induction env key kind c cty subs ps protos cs rule: concretizeConformances.induct)
  case (1 env key kind c cty subs p ps proto protos cs)
  then show ?case
    using concretizeConformance_not_inserted [of env key kind c cty subs p proto cs]
    by (auto split: sum.splits)
qed simp_all

lemma concretizeParent_not_inserted:
  "concretizeNestedTypesFromConcreteParent env key kind c cty subs ps protos cs \<noteq>
     Inl AssertInserted"
  using concretizeConformances_not_inserted
  by (simp add: concretizeNestedTypesFromConcreteParent_def)

lemma concretizeEntry_not_inserted:
  "concretizeEntry env props st \<noteq> Inl AssertInserted"
  using concretizeParent_not_inserted
  by (auto simp: concretizeEntry_def concretizeFromConcreteType_def
      concretizeFromSuperclass_def split: sum.splits option.splits prod.splits)

lemma concretizeParents_not_inserted:
  "concretizeNestedTypesFromConcreteParents env entries st \<noteq> Inl AssertInserted"
proof (induction entries arbitrary: st)
  case Nil
  then show ?case by simp
next
  case (Cons props entries)
  then show ?case
    using concretizeEntry_not_inserted [of env props st] by (auto split: sum.splits)
qed


text \<open>What one turn of the loop does to the table.\<close>

lemma concretizeConformance_cases:
  assumes "concretizeConformance env key kind c cty subs p proto (confs, st) = Inr (confsA, stA)"
  shows "(\<exists>h. map_of (ConcreteConformances st) (c, p) = Some h \<and> stA = st \<and>
              confsA = confs @ [h]) \<or>
         (map_of (ConcreteConformances st) (c, p) = None \<and>
            ConcreteConformances stA = ConcreteConformances st \<and>
            length (Rules stA) = length (Rules st) \<and> confsA = confs) \<or>
         (\<exists>concrete. map_of (ConcreteConformances st) (c, p) = None \<and>
            lookupConformance env cty proto = Concrete concrete \<and>
            ConcreteConformances stA = ConcreteConformances st @ [((c, p), concrete)] \<and>
            confsA = confs @ [concrete])"
proof (cases "map_of (ConcreteConformances st) (c, p)")
  case (Some found)
  then show ?thesis using assms by (simp add: concretizeConformance_def)
next
  case None
  show ?thesis
  proof (cases "lookupConformance env cty proto")
    case Invalid
    then show ?thesis
      using assms None markMissingConformance_table [of key kind c p st]
      by (auto simp: concretizeConformance_Invalid split: sum.splits)
  next
    case (Abstract q)
    then show ?thesis using assms None by (simp add: concretizeConformance_def)
  next
    case (Concrete concrete)
    let ?st0 = "st\<lparr>ConcreteConformances := ConcreteConformances st @ [((c, p), concrete)]\<rparr>"
    let ?S = "forConcreteConformance cty subs proto"
    obtain stR where r: "recordConcreteConformanceRule c p kind ?S ?st0 = Inr stR"
      using assms None Concrete
      by (auto simp: concretizeConformance_Concrete split: sum.splits)
    obtain stW where w: "concretizeTypeWitnesses env key kind ?S concrete
        (getAssociatedTypeMembers env proto) stR = Inr stW"
      using assms None Concrete r
      by (auto simp: concretizeConformance_Concrete split: sum.splits)
    have res: "confsA = confs @ [concrete]"
      "stA = (if getRootProtocol key = None
              then inferConditionalRequirements env concrete subs stW else stW)"
      using assms None Concrete r w by (auto simp: concretizeConformance_Concrete)
    have "ConcreteConformances stW = ConcreteConformances ?st0"
      using recordConcreteConformanceRule_table [OF r] concretizeTypeWitnesses_table [OF w]
      by simp
    then have "ConcreteConformances stA = ConcreteConformances st @ [((c, p), concrete)]"
      using res(2) by (simp add: inferConditionalRequirements_fields)
    then show ?thesis using None Concrete res(1) by blast
  qed
qed

text \<open>
  A property of the table that survives the insertion of an absent pair survives every
  loop of the file.
\<close>

lemma concretizeConformance_table:
  assumes ext: "\<And>t k x. P t \<Longrightarrow> map_of t k = None \<Longrightarrow> P (t @ [(k, x)])"
    and "concretizeConformance env key kind c cty subs p proto cs = Inr csA"
    and "P (ConcreteConformances (snd cs))"
  shows "P (ConcreteConformances (snd csA))"
proof -
  obtain confs st where cs: "cs = (confs, st)" by (cases cs)
  obtain confsA stA where csA: "csA = (confsA, stA)" by (cases csA)
  show ?thesis
    using concretizeConformance_cases [OF assms(2) [unfolded cs csA]] assms(3) ext
    unfolding cs csA by auto
qed

lemma concretizeConformances_table:
  assumes ext: "\<And>t k x. P t \<Longrightarrow> map_of t k = None \<Longrightarrow> P (t @ [(k, x)])"
  shows "concretizeConformances env key kind c cty subs ps protos cs = Inr csA \<Longrightarrow>
         P (ConcreteConformances (snd cs)) \<Longrightarrow> P (ConcreteConformances (snd csA))"
proof (induction env key kind c cty subs ps protos cs rule: concretizeConformances.induct)
  case (1 env key kind c cty subs p ps proto protos cs)
  obtain csB where step: "concretizeConformance env key kind c cty subs p proto cs = Inr csB"
    and rest: "concretizeConformances env key kind c cty subs ps protos csB = Inr csA"
    using "1.prems"(1) by (auto split: sum.splits)
  have "P (ConcreteConformances (snd csB))"
    using concretizeConformance_table [of P, OF ext step "1.prems"(2)] .
  then show ?case using "1.IH" [OF step rest] by simp
qed simp_all

lemma concretizeParent_table:
  assumes ext: "\<And>t k x. P t \<Longrightarrow> map_of t k = None \<Longrightarrow> P (t @ [(k, x)])"
    and "concretizeNestedTypesFromConcreteParent env key kind c cty subs ps protos (confs, st) =
           Inr (confsA, stA)"
    and "P (ConcreteConformances st)"
  shows "P (ConcreteConformances stA)"
  using concretizeConformances_table [of P env key kind c cty subs ps protos "(confs, st)"
      "(confsA, stA)", OF ext] assms(2,3)
  by (auto simp: concretizeNestedTypesFromConcreteParent_def split: if_splits)

lemma concretizeEntry_table:
  assumes ext: "\<And>t k x. P t \<Longrightarrow> map_of t k = None \<Longrightarrow> P (t @ [(k, x)])"
    and "concretizeEntry env props st = Inr (propsA, stA)"
    and "P (ConcreteConformances st)"
  shows "P (ConcreteConformances stA)"
proof (cases "ConformsTo props = []")
  case True
  then show ?thesis using assms(2,3) by (simp add: concretizeEntry_def)
next
  case False
  obtain propsB stB where c: "concretizeFromConcreteType env (props, st) = Inr (propsB, stB)"
    and s: "concretizeFromSuperclass env (propsB, stB) = Inr (propsA, stA)"
    using assms(2) False by (auto simp: concretizeEntry_def split: sum.splits)
  have "P (ConcreteConformances stB)"
    using c assms(3) concretizeParent_table [of P, OF ext]
    by (auto simp: concretizeFromConcreteType_def split: option.splits sum.splits)
  then show ?thesis
    using s concretizeParent_table [of P, OF ext]
    by (auto simp: concretizeFromSuperclass_def split: option.splits sum.splits)
qed

lemma concretizeParents_table:
  assumes ext: "\<And>t k x. P t \<Longrightarrow> map_of t k = None \<Longrightarrow> P (t @ [(k, x)])"
  shows "concretizeNestedTypesFromConcreteParents env entries st = Inr (entriesA, stA) \<Longrightarrow>
         P (ConcreteConformances st) \<Longrightarrow> P (ConcreteConformances stA)"
proof (induction entries arbitrary: st entriesA)
  case Nil
  then show ?case by simp
next
  case (Cons props entries)
  obtain propsB stB entriesB where e: "concretizeEntry env props st = Inr (propsB, stB)"
    and r: "concretizeNestedTypesFromConcreteParents env entries stB = Inr (entriesB, stA)"
    using Cons.prems(1) by (auto split: sum.splits)
  have "P (ConcreteConformances stB)"
    using concretizeEntry_table [of P, OF ext e Cons.prems(2)] .
  then show ?case using Cons.IH [OF r] by simp
qed

lemma table_keeps_entry:
  "map_of t pr = Some h \<Longrightarrow> map_of t k = None \<Longrightarrow> map_of (t @ [(k, x)]) pr = Some h"
  by simp

lemma table_keeps_distinct:
  "distinct (map fst t) \<Longrightarrow> map_of t k = None \<Longrightarrow> distinct (map fst (t @ [(k, x)]))"
  by (simp add: map_of_eq_None_iff)

text \<open>
  C5. The table \<open>ConcreteConformances\<close> is looked up before it is written, so the
  assertion behind the insertion never fires, in one turn of the loop and in a whole
  run of \<^verbatim>\<open>concretizeNestedTypesFromConcreteParents\<close>, and a run keeps the pairs of
  the table distinct. When the pair is in the table, the turn appends the conformance
  found there to the conformances of the property bag and leaves the state as it is: no
  rule and no relation is added. A turn that changes the number of rules started
  without the pair and ends with the pair in the table. A pair that is in the table is
  still there, with the same conformance, after any run, so that every later turn for
  the pair, on any key, is again one that only appends the conformance. The table is a
  member of the property map, shared by all keys, and the state carries it from one run
  to the next.
\<close>

theorem each_pair_concretized_once:
  "concretizeNestedTypesFromConcreteParents env entries st \<noteq> Inl AssertInserted \<and>
   concretizeConformance env key kind c cty subs p proto (confs, st) \<noteq> Inl AssertInserted \<and>
   (map_of (ConcreteConformances st) (c, p) = Some h \<longrightarrow>
      concretizeConformance env key kind c cty subs p proto (confs, st) =
        Inr (confs @ [h], st)) \<and>
   (concretizeConformance env key kind c cty subs p proto (confs, st) = Inr (confsA, stA) \<and>
    length (Rules stA) \<noteq> length (Rules st) \<longrightarrow>
      map_of (ConcreteConformances st) (c, p) = None \<and>
      map_of (ConcreteConformances stA) (c, p) \<noteq> None) \<and>
   (concretizeNestedTypesFromConcreteParents env entries st = Inr (entriesB, stB) \<and>
    distinct (map fst (ConcreteConformances st)) \<longrightarrow>
      distinct (map fst (ConcreteConformances stB))) \<and>
   (concretizeNestedTypesFromConcreteParents env entries st = Inr (entriesB, stB) \<and>
    map_of (ConcreteConformances st) (c, p) = Some h \<longrightarrow>
      concretizeConformance envB keyB kindB c ctyB subsB p protoB (confsB, stB) =
        Inr (confsB @ [h], stB))"
proof -
  have hit: "concretizeConformance e k r c t s p q (cs, x) = Inr (cs @ [h], x)"
    if "map_of (ConcreteConformances x) (c, p) = Some h" for e k r t s q cs x
    using that by (simp add: concretizeConformance_def)
  have grow: "map_of (ConcreteConformances st) (c, p) = None \<and>
              map_of (ConcreteConformances stA) (c, p) \<noteq> None"
    if "concretizeConformance env key kind c cty subs p proto (confs, st) = Inr (confsA, stA)"
      and "length (Rules stA) \<noteq> length (Rules st)"
    using concretizeConformance_cases [OF that(1)] that(2)
    by (auto simp: map_add_def)
  have dist: "distinct (map fst (ConcreteConformances stB))"
    if "concretizeNestedTypesFromConcreteParents env entries st = Inr (entriesB, stB)"
      and "distinct (map fst (ConcreteConformances st))"
    using concretizeParents_table [of "\<lambda>t. distinct (map fst t)", OF table_keeps_distinct that] .
  have keep: "map_of (ConcreteConformances stB) (c, p) = Some h"
    if "concretizeNestedTypesFromConcreteParents env entries st = Inr (entriesB, stB)"
      and "map_of (ConcreteConformances st) (c, p) = Some h"
    using concretizeParents_table [of "\<lambda>t. map_of t (c, p) = Some h", OF table_keeps_entry that] .
  show ?thesis
    using concretizeParents_not_inserted [of env entries st]
      concretizeConformance_not_inserted [of env key kind c cty subs p proto "(confs, st)"]
      hit grow dist keep
    by blast
qed

lemma example_round:
  "map_sum id (\<lambda>(es, st). (map BagConcreteConformances es, map fst (ConcreteConformances st),
       length (Rules st)))
     (concretizeNestedTypesFromConcreteParents exampleEnv [exampleBag] exampleState) =
     Inr ([[conformanceFooP]], [(0, 1)], 5)"
  by code_simp

lemma example_second_round:
  "(case concretizeNestedTypesFromConcreteParents exampleEnv [exampleBag] exampleState of
      Inl e \<Rightarrow> Inl e
    | Inr (es, st) \<Rightarrow>
        map_sum id (\<lambda>(esB, stB). (map BagConcreteConformances esB,
            map fst (ConcreteConformances stB), Rules stB = Rules st,
            Relations stB = Relations st))
          (concretizeNestedTypesFromConcreteParents exampleEnv [exampleBag] st)) =
     Inr ([[conformanceFooP]], [(0, 1)], True, True)"
  by code_simp

theorem each_pair_concretized_once_witness:
  "map_sum id (\<lambda>(es, st). (map BagConcreteConformances es, map fst (ConcreteConformances st),
       length (Rules st)))
     (concretizeNestedTypesFromConcreteParents exampleEnv [exampleBag] exampleState) =
     Inr ([[conformanceFooP]], [(0, 1)], 5) \<and>
   (case concretizeNestedTypesFromConcreteParents exampleEnv [exampleBag] exampleState of
      Inl e \<Rightarrow> Inl e
    | Inr (es, st) \<Rightarrow>
        map_sum id (\<lambda>(esB, stB). (map BagConcreteConformances esB,
            map fst (ConcreteConformances stB), Rules stB = Rules st,
            Relations stB = Relations st))
          (concretizeNestedTypesFromConcreteParents exampleEnv [exampleBag] st)) =
     Inr ([[conformanceFooP]], [(0, 1)], True, True)"
  using each_pair_concretized_once [where env = exampleEnv and entries = "[exampleBag]"
      and st = exampleState and key = termT and kind = SameType and c = 0 and p = 1
      and cty = typeFoo and subs = "[termU]" and proto = "''P''" and confs = "[]"]
    example_round example_second_round
  by simp

end
